theory Spec2Isabelle
  imports Complex_Main "HOL-Library.Word"
begin

section \<open>The game state of \<open>main.cpp\<close>\<close>

text \<open>
  The program is a two-paddle ball game driven by the loop
  \<open>while (g_app_status == RUNNING) { process_input(); update(); render(); }\<close>.
  Its state is the set of global variables declared at the top of \<open>main.cpp\<close>. The
  model matrices, texture handles and the shader program are written by \<open>update\<close> and
  \<open>render\<close> but never read back by the game logic, so they are left out of the state.

  The C++ variables of type \<open>float\<close> are modelled as mathematical reals: every
  arithmetic operation is exact. Statements below are therefore statements about the
  game logic under exact arithmetic, not about rounding.
\<close>

datatype AppStatus = RUNNING | TERMINATED

record vec3 =
  vec_x :: real
  vec_y :: real
  vec_z :: real

text \<open>\<open>glm::vec3(a)\<close>, \<open>v * a\<close> and \<open>u + v\<close> on \<open>glm::vec3\<close>.\<close>

definition vec3_of :: "real \<Rightarrow> vec3" where
  "vec3_of a = \<lparr>vec_x = a, vec_y = a, vec_z = a\<rparr>"

definition vec3_scale :: "vec3 \<Rightarrow> real \<Rightarrow> vec3" where
  "vec3_scale v a = \<lparr>vec_x = vec_x v * a, vec_y = vec_y v * a, vec_z = vec_z v * a\<rparr>"

definition vec3_add :: "vec3 \<Rightarrow> vec3 \<Rightarrow> vec3" where
  "vec3_add u v = \<lparr>vec_x = vec_x u + vec_x v, vec_y = vec_y u + vec_y v,
                   vec_z = vec_z u + vec_z v\<rparr>"

definition INIT_PLAYER_1_SCALE :: vec3 where
  "INIT_PLAYER_1_SCALE = \<lparr>vec_x = 0.8, vec_y = 1.2, vec_z = 0\<rparr>"

definition INIT_PLAYER_2_SCALE :: vec3 where
  "INIT_PLAYER_2_SCALE = \<lparr>vec_x = 1, vec_y = 1, vec_z = 0\<rparr>"

definition INIT_BALL_SCALE :: vec3 where
  "INIT_BALL_SCALE = \<lparr>vec_x = 0.25, vec_y = 0.25, vec_z = 0\<rparr>"

definition MILLISECONDS_IN_SECOND :: real where
  "MILLISECONDS_IN_SECOND = 1000"

record game =
  g_app_status :: AppStatus
  right_paddle_swtich :: int
  g_previous_ticks :: real
  g_paddle_position :: vec3
  g_paddle_movement :: vec3
  g_right_paddle_position :: vec3
  g_right_paddle_movement :: vec3
  g_ball_position :: vec3
  g_ball_movement :: vec3
  g_paddle_speed :: real
  g_ball_speed :: real
  paddle_y_distance :: real
  paddle_right_y_distance :: real
  paddle_ball_x_distance :: real
  paddle_ball_y_distance :: real
  right_paddle_ball_x_distance :: real
  right_paddle_ball_y_distance :: real

text \<open>The initialisers of the globals (lines 59 to 96 of \<open>main.cpp\<close>).\<close>

definition initial_game :: game where
  "initial_game = \<lparr>
     g_app_status = RUNNING,
     right_paddle_swtich = - 1,
     g_previous_ticks = 0,
     g_paddle_position = \<lparr>vec_x = - 4, vec_y = 0, vec_z = 0\<rparr>,
     g_paddle_movement = \<lparr>vec_x = 0, vec_y = 0, vec_z = 0\<rparr>,
     g_right_paddle_position = \<lparr>vec_x = 4, vec_y = 0, vec_z = 0\<rparr>,
     g_right_paddle_movement = \<lparr>vec_x = 0, vec_y = 0, vec_z = 0\<rparr>,
     g_ball_position = \<lparr>vec_x = 0, vec_y = 0, vec_z = 0\<rparr>,
     g_ball_movement = \<lparr>vec_x = 0, vec_y = 0, vec_z = 0\<rparr>,
     g_paddle_speed = 3,
     g_ball_speed = 3,
     paddle_y_distance = 0,
     paddle_right_y_distance = 0,
     paddle_ball_x_distance = 0,
     paddle_ball_y_distance = 0,
     right_paddle_ball_x_distance = 0,
     right_paddle_ball_y_distance = 0\<rparr>"

section \<open>Input of one frame\<close>

text \<open>
  What \<open>process_input\<close> and \<open>update\<close> read from SDL in one iteration of the main loop:
  the queue of pending events drained by \<open>SDL_PollEvent\<close>, the keyboard array returned
  by \<open>SDL_GetKeyboardState\<close> (one \<open>Uint8\<close> per scancode) and the value of
  \<open>SDL_GetTicks\<close> (a \<open>Uint32\<close> number of milliseconds).
\<close>

datatype keycode = SDLK_t | SDLK_p | SDLK_other nat

datatype event =
    SDL_QUIT
  | SDL_WINDOWEVENT_CLOSE
  | SDL_KEYDOWN keycode
  | SDL_other_event nat

datatype scancode =
    SDL_SCANCODE_W
  | SDL_SCANCODE_S
  | SDL_SCANCODE_UP
  | SDL_SCANCODE_DOWN
  | SDL_SCANCODE_other nat

record frame_input =
  events :: "event list"
  key_state :: "scancode \<Rightarrow> 8 word"
  ticks_ms :: "32 word"

section \<open>\<open>process_input\<close>\<close>

text \<open>The body of the \<open>while (SDL_PollEvent(&event))\<close> loop, for one event.\<close>

fun handle_event :: "event \<Rightarrow> game \<Rightarrow> game" where
  "handle_event SDL_QUIT s = s\<lparr>g_app_status := TERMINATED\<rparr>"
| "handle_event SDL_WINDOWEVENT_CLOSE s = s\<lparr>g_app_status := TERMINATED\<rparr>"
| "handle_event (SDL_KEYDOWN SDLK_t) s =
     s\<lparr>right_paddle_swtich := right_paddle_swtich s * (- 1)\<rparr>"
| "handle_event (SDL_KEYDOWN SDLK_p) s =
     s\<lparr>g_ball_movement := (g_ball_movement s)\<lparr>vec_x := - 1\<rparr>\<rparr>"
| "handle_event (SDL_KEYDOWN (SDLK_other k)) s = s"
| "handle_event (SDL_other_event n) s = s"

primrec poll_events :: "event list \<Rightarrow> game \<Rightarrow> game" where
  "poll_events [] s = s"
| "poll_events (e # es) s = poll_events es (handle_event e s)"

text \<open>The four \<open>if (key_state[...])\<close> blocks, in source order.\<close>

definition key_W :: "(scancode \<Rightarrow> 8 word) \<Rightarrow> game \<Rightarrow> game" where
  "key_W ks s =
     (if ks SDL_SCANCODE_W \<noteq> 0 then
        (let s1 = s\<lparr>g_paddle_movement := (g_paddle_movement s)\<lparr>vec_y := 1\<rparr>\<rparr>
         in if paddle_y_distance s1 \<le> 0
            then s1\<lparr>g_paddle_movement := (g_paddle_movement s1)\<lparr>vec_y := 0\<rparr>\<rparr>
            else s1)
      else s)"

definition key_S :: "(scancode \<Rightarrow> 8 word) \<Rightarrow> game \<Rightarrow> game" where
  "key_S ks s =
     (if ks SDL_SCANCODE_S \<noteq> 0 then
        (let s1 = s\<lparr>g_paddle_movement := (g_paddle_movement s)\<lparr>vec_y := - 1\<rparr>\<rparr>
         in if paddle_y_distance s1 \<ge> 6.3
            then s1\<lparr>g_paddle_movement := (g_paddle_movement s1)\<lparr>vec_y := 0\<rparr>\<rparr>
            else s1)
      else s)"

definition key_UP :: "(scancode \<Rightarrow> 8 word) \<Rightarrow> game \<Rightarrow> game" where
  "key_UP ks s =
     (if ks SDL_SCANCODE_UP \<noteq> 0 then
        (let s1 = s\<lparr>g_right_paddle_movement := (g_right_paddle_movement s)\<lparr>vec_y := 1\<rparr>\<rparr>
         in if paddle_right_y_distance s1 \<le> 0
            then s1\<lparr>g_right_paddle_movement := (g_right_paddle_movement s1)\<lparr>vec_y := 0\<rparr>\<rparr>
            else s1)
      else s)"

definition key_DOWN :: "(scancode \<Rightarrow> 8 word) \<Rightarrow> game \<Rightarrow> game" where
  "key_DOWN ks s =
     (if ks SDL_SCANCODE_DOWN \<noteq> 0 then
        (let s1 = s\<lparr>g_right_paddle_movement := (g_right_paddle_movement s)\<lparr>vec_y := - 1\<rparr>\<rparr>
         in if paddle_right_y_distance s1 \<ge> 6.3
            then s1\<lparr>g_right_paddle_movement := (g_right_paddle_movement s1)\<lparr>vec_y := 0\<rparr>\<rparr>
            else s1)
      else s)"

definition process_input :: "frame_input \<Rightarrow> game \<Rightarrow> game" where
  "process_input inp s =
     (let s1 = poll_events (events inp) s;
          s2 = s1\<lparr>g_paddle_movement := vec3_of 0, g_right_paddle_movement := vec3_of 0\<rparr>
      in key_DOWN (key_state inp) (key_UP (key_state inp)
           (key_S (key_state inp) (key_W (key_state inp) s2))))"

section \<open>\<open>update\<close>\<close>

text \<open>
  \<open>delta_time = (float) SDL_GetTicks() / MILLISECONDS_IN_SECOND - g_previous_ticks\<close>.
\<close>

definition seconds :: "32 word \<Rightarrow> real" where
  "seconds t = real (unat t) / MILLISECONDS_IN_SECOND"

definition delta_time :: "32 word \<Rightarrow> game \<Rightarrow> real" where
  "delta_time t s = seconds t - g_previous_ticks s"

text \<open>
  The block under \<open>/* GAME LOGIC */\<close> (lines 254 to 266): the ball and the left paddle
  are moved first; the right paddle follows its movement vector when
  \<open>right_paddle_swtich == -1\<close> and tracks the ball (already moved) otherwise.
\<close>

definition move_ball :: "real \<Rightarrow> game \<Rightarrow> game" where
  "move_ball dt s = s\<lparr>g_ball_position :=
     vec3_add (g_ball_position s) (vec3_scale (vec3_scale (g_ball_movement s) (g_ball_speed s)) dt)\<rparr>"

definition move_paddle :: "real \<Rightarrow> game \<Rightarrow> game" where
  "move_paddle dt s = s\<lparr>g_paddle_position :=
     vec3_add (g_paddle_position s)
       (vec3_scale (vec3_scale (g_paddle_movement s) (g_paddle_speed s)) dt)\<rparr>"

definition move_right_paddle :: "real \<Rightarrow> game \<Rightarrow> game" where
  "move_right_paddle dt s =
     (if right_paddle_swtich s = - 1 then
        s\<lparr>g_right_paddle_position :=
            vec3_add (g_right_paddle_position s)
              (vec3_scale (vec3_scale (g_right_paddle_movement s) (g_paddle_speed s)) dt)\<rparr>
      else if vec_y (g_ball_position s) < vec_y (g_right_paddle_position s) then
        s\<lparr>g_right_paddle_position :=
            vec3_add (g_right_paddle_position s)
              (vec3_scale (vec3_scale \<lparr>vec_x = 0, vec_y = - 1, vec_z = 0\<rparr> (g_paddle_speed s)) dt)\<rparr>
      else if vec_y (g_ball_position s) > vec_y (g_right_paddle_position s) then
        s\<lparr>g_right_paddle_position :=
            vec3_add (g_right_paddle_position s)
              (vec3_scale (vec3_scale \<lparr>vec_x = 0, vec_y = 1, vec_z = 0\<rparr> (g_paddle_speed s)) dt)\<rparr>
      else s)"

definition game_logic :: "real \<Rightarrow> game \<Rightarrow> game" where
  "game_logic dt s = move_right_paddle dt (move_paddle dt (move_ball dt s))"

text \<open>The block under \<open>/* DISTANCE CALCULATIONS */\<close> (lines 269 to 274).\<close>

definition distance_calculations :: "game \<Rightarrow> game" where
  "distance_calculations s = s\<lparr>
     paddle_y_distance := 3.15 - vec_y (g_paddle_position s),
     paddle_right_y_distance := 3.15 - vec_y (g_right_paddle_position s),
     paddle_ball_x_distance :=
       \<bar>vec_x (g_ball_position s) - vec_x (g_paddle_position s)\<bar>
         - (vec_x INIT_BALL_SCALE + vec_x INIT_PLAYER_1_SCALE) / 2,
     paddle_ball_y_distance :=
       \<bar>vec_y (g_ball_position s) - vec_y (g_paddle_position s)\<bar>
         - (vec_y INIT_BALL_SCALE + vec_y INIT_PLAYER_1_SCALE) / 2,
     right_paddle_ball_x_distance :=
       \<bar>vec_x (g_ball_position s) - vec_x (g_right_paddle_position s)\<bar>
         - (vec_x INIT_BALL_SCALE + vec_x INIT_PLAYER_2_SCALE) / 2,
     right_paddle_ball_y_distance :=
       \<bar>vec_y (g_ball_position s) - vec_y (g_right_paddle_position s)\<bar>
         - (vec_y INIT_BALL_SCALE + vec_y INIT_PLAYER_2_SCALE) / 2\<rparr>"

text \<open>
  The \<open>if ... else if ...\<close> of lines 276 to 301. \<open>collision_branch\<close> names the branch
  that the two conditions select; \<open>resolve_collision\<close> runs its body.
\<close>

datatype branch = LEFT_PADDLE | RIGHT_PADDLE | NO_PADDLE

definition collision_branch :: "game \<Rightarrow> branch" where
  "collision_branch s =
     (if paddle_ball_x_distance s \<le> 0 \<and> paddle_ball_y_distance s \<le> 0 then LEFT_PADDLE
      else if right_paddle_ball_x_distance s \<le> 0 \<and> right_paddle_ball_y_distance s \<le> 0
           then RIGHT_PADDLE
      else NO_PADDLE)"

definition deflect :: "real \<Rightarrow> game \<Rightarrow> game" where
  "deflect m s =
     (if m < 0 then s\<lparr>g_ball_movement := (g_ball_movement s)\<lparr>vec_y := - 1\<rparr>\<rparr>
      else if m > 0 then s\<lparr>g_ball_movement := (g_ball_movement s)\<lparr>vec_y := 1\<rparr>\<rparr>
      else s)"

definition resolve_collision :: "game \<Rightarrow> game" where
  "resolve_collision s =
     (case collision_branch s of
        LEFT_PADDLE \<Rightarrow>
          deflect (vec_y (g_paddle_movement s))
            (s\<lparr>g_ball_movement := (g_ball_movement s)\<lparr>vec_x := 1\<rparr>,
               g_ball_speed := g_ball_speed s * 1.015\<rparr>)
      | RIGHT_PADDLE \<Rightarrow>
          deflect (vec_y (g_right_paddle_movement s))
            (s\<lparr>g_ball_movement := (g_ball_movement s)\<lparr>vec_x := - 1\<rparr>,
               g_ball_speed := g_ball_speed s * 1.015\<rparr>)
      | NO_PADDLE \<Rightarrow> s)"

text \<open>Lines 302 to 305.\<close>

definition vertical_bounce :: "game \<Rightarrow> game" where
  "vertical_bounce s =
     (if vec_y (g_ball_position s) \<ge> 3.5 \<or> vec_y (g_ball_position s) \<le> - 3.5
      then s\<lparr>g_ball_movement := (g_ball_movement s)\<lparr>vec_y := vec_y (g_ball_movement s) * (- 1)\<rparr>\<rparr>
      else s)"

text \<open>The block under \<open>/* TERMINATION */\<close> (lines 326 to 329).\<close>

definition termination_check :: "game \<Rightarrow> game" where
  "termination_check s =
     (if vec_x (g_ball_position s) \<ge> 5 \<or> vec_x (g_ball_position s) \<le> - 5
      then s\<lparr>g_app_status := TERMINATED\<rparr>
      else s)"

text \<open>
  The state in which the collision conditions are tested: the positions have been
  integrated and the six distances recomputed.
\<close>

definition before_collision :: "32 word \<Rightarrow> game \<Rightarrow> game" where
  "before_collision t s =
     distance_calculations (game_logic (delta_time t s) (s\<lparr>g_previous_ticks := seconds t\<rparr>))"

definition update :: "32 word \<Rightarrow> game \<Rightarrow> game" where
  "update t s = termination_check (vertical_bounce (resolve_collision (before_collision t s)))"

section \<open>The main loop\<close>

text \<open>One iteration of the loop body, without \<open>render\<close>.\<close>

definition frame :: "frame_input \<Rightarrow> game \<Rightarrow> game" where
  "frame inp s = update (ticks_ms inp) (process_input inp s)"

text \<open>
  The loop over a finite sequence of frame inputs: the condition
  \<open>g_app_status == RUNNING\<close> is tested before each iteration.
\<close>

fun main_loop :: "frame_input list \<Rightarrow> game \<Rightarrow> game" where
  "main_loop [] s = s"
| "main_loop (inp # inps) s =
     (if g_app_status s = RUNNING then main_loop inps (frame inp s) else s)"

section \<open>Counting paddle hits along an execution\<close>

text \<open>
  The number of iterations of the main loop, over the given inputs, in which one of the
  two collision branches of \<open>update\<close> is entered.
\<close>

fun collision_count :: "frame_input list \<Rightarrow> game \<Rightarrow> nat" where
  "collision_count [] s = 0"
| "collision_count (inp # inps) s =
     (if g_app_status s = RUNNING then
        (if collision_branch (before_collision (ticks_ms inp) (process_input inp s)) = NO_PADDLE
         then 0 else 1) + collision_count inps (frame inp s)
      else 0)"

section \<open>Which input a frame observes\<close>

text \<open>
  Two frame inputs agree, relative to a set of observed events, when they hold the same
  tick count, the same held state of the four movement keys and the same sequence of
  observed events.
\<close>

definition held :: "frame_input \<Rightarrow> scancode \<Rightarrow> bool" where
  "held inp k = (key_state inp k \<noteq> 0)"

definition inputs_agree :: "(event \<Rightarrow> bool) \<Rightarrow> frame_input \<Rightarrow> frame_input \<Rightarrow> bool" where
  "inputs_agree observed i1 i2 =
     (ticks_ms i1 = ticks_ms i2
      \<and> held i1 SDL_SCANCODE_W = held i2 SDL_SCANCODE_W
      \<and> held i1 SDL_SCANCODE_S = held i2 SDL_SCANCODE_S
      \<and> held i1 SDL_SCANCODE_UP = held i2 SDL_SCANCODE_UP
      \<and> held i1 SDL_SCANCODE_DOWN = held i2 SDL_SCANCODE_DOWN
      \<and> filter observed (events i1) = filter observed (events i2))"

text \<open>Quit requests and the key-down event of the mode toggle.\<close>

fun quit_or_toggle :: "event \<Rightarrow> bool" where
  "quit_or_toggle SDL_QUIT = True"
| "quit_or_toggle SDL_WINDOWEVENT_CLOSE = True"
| "quit_or_toggle (SDL_KEYDOWN SDLK_t) = True"
| "quit_or_toggle (SDL_KEYDOWN SDLK_p) = False"
| "quit_or_toggle (SDL_KEYDOWN (SDLK_other k)) = False"
| "quit_or_toggle (SDL_other_event n) = False"

text \<open>The events for which the \<open>SDL_PollEvent\<close> loop has a case.\<close>

fun handled_event :: "event \<Rightarrow> bool" where
  "handled_event SDL_QUIT = True"
| "handled_event SDL_WINDOWEVENT_CLOSE = True"
| "handled_event (SDL_KEYDOWN SDLK_t) = True"
| "handled_event (SDL_KEYDOWN SDLK_p) = True"
| "handled_event (SDL_KEYDOWN (SDLK_other k)) = False"
| "handled_event (SDL_other_event n) = False"

section \<open>Concrete scenarios\<close>

text \<open>
  The initial state with the ball placed at \<open>(px, py)\<close> and moving in direction
  \<open>(mx, my)\<close>, and frame inputs with no pending event.
\<close>

definition scenario_ball_at :: "real \<Rightarrow> real \<Rightarrow> real \<Rightarrow> real \<Rightarrow> game" where
  "scenario_ball_at px py mx my = initial_game\<lparr>
     g_ball_position := \<lparr>vec_x = px, vec_y = py, vec_z = 0\<rparr>,
     g_ball_movement := \<lparr>vec_x = mx, vec_y = my, vec_z = 0\<rparr>\<rparr>"

definition no_keys :: "scancode \<Rightarrow> 8 word" where
  "no_keys k = 0"

definition idle_input :: "32 word \<Rightarrow> frame_input" where
  "idle_input t = \<lparr>events = [], key_state = no_keys, ticks_ms = t\<rparr>"

definition key_down_input :: "keycode \<Rightarrow> 32 word \<Rightarrow> frame_input" where
  "key_down_input k t = \<lparr>events = [SDL_KEYDOWN k], key_state = no_keys, ticks_ms = t\<rparr>"

definition holding :: "scancode \<Rightarrow> scancode \<Rightarrow> 8 word" where
  "holding k k' = (if k' = k then 1 else 0)"

definition holding_input :: "scancode \<Rightarrow> 32 word \<Rightarrow> frame_input" where
  "holding_input k t = \<lparr>events = [], key_state = holding k, ticks_ms = t\<rparr>"

text \<open>
  The ball reaching the left paddle while that paddle moves down, and the ball reaching
  the right paddle while that paddle moves up.
\<close>

definition scenario_left_hit :: game where
  "scenario_left_hit = (scenario_ball_at (- 3.5) 0.3 (- 1) 1)\<lparr>
      g_paddle_movement := \<lparr>vec_x = 0, vec_y = - 1, vec_z = 0\<rparr>\<rparr>"

definition scenario_right_hit :: game where
  "scenario_right_hit = (scenario_ball_at 3.4 0.3 1 (- 1))\<lparr>
      g_right_paddle_movement := \<lparr>vec_x = 0, vec_y = 1, vec_z = 0\<rparr>\<rparr>"

text \<open>
  A state in which the ball overlaps both paddles at once: the right paddle is placed next
  to the left one. The paddles' x-coordinates never change during play, so this state is
  not reached from \<open>initial_game\<close>; it only exercises the order of the two tests.
\<close>

definition scenario_both_paddles :: game where
  "scenario_both_paddles = (scenario_ball_at (- 3.6) 0 (- 1) 0)\<lparr>
      g_right_paddle_position := \<lparr>vec_x = - 3.5, vec_y = 0, vec_z = 0\<rparr>,
      g_paddle_movement := \<lparr>vec_x = 0, vec_y = 1, vec_z = 0\<rparr>,
      g_right_paddle_movement := \<lparr>vec_x = 0, vec_y = - 1, vec_z = 0\<rparr>\<rparr>"

text \<open>The ball above the upper bound and moving up, away from both paddles.\<close>

definition scenario_bounce :: game where
  "scenario_bounce = scenario_ball_at 0 3.6 0 1"

text \<open>The right paddle in tracking mode with the ball above it.\<close>

definition scenario_ai :: game where
  "scenario_ai = (scenario_ball_at 0 2 0 0)\<lparr>right_paddle_swtich := 1\<rparr>"

text \<open>
  The left paddle just under the upper bound, with the distances a previous \<open>update\<close>
  has stored for that position.
\<close>

definition scenario_near_top :: game where
  "scenario_near_top = initial_game\<lparr>
      g_paddle_position := \<lparr>vec_x = - 4, vec_y = 3.1, vec_z = 0\<rparr>,
      paddle_y_distance := 0.05, paddle_right_y_distance := 3.15\<rparr>"

text \<open>
  An input that differs from \<open>key_down_input SDLK_p 100\<close> only in events and keys
  that \<open>process_input\<close> has no case for.
\<close>

definition noisy_input :: frame_input where
  "noisy_input = \<lparr>events = [SDL_KEYDOWN (SDLK_other 5), SDL_KEYDOWN SDLK_p, SDL_other_event 3],
      key_state = holding (SDL_SCANCODE_other 7), ticks_ms = 100\<rparr>"

text \<open>
  The right paddle in tracking mode, the ball below it and about to reach it.
\<close>

definition scenario_ai_hit :: game where
  "scenario_ai_hit = (scenario_ball_at 3.4 (- 0.3) 1 (- 1))\<lparr>
      right_paddle_swtich := 1, paddle_y_distance := 3.15, paddle_right_y_distance := 3.15\<rparr>"

text \<open>
  Two frames from the initial state: the P key sends the ball to the left; 1.2 seconds
  later the ball has reached the left paddle.
\<close>

definition serve_and_return :: "frame_input list" where
  "serve_and_return = [key_down_input SDLK_p 0, idle_input 1200]"

text \<open>
  The ball at the upper bound and about to reach the left paddle, which stands just below
  the bound, with the distances a previous \<open>update\<close> has stored for these positions.
\<close>

definition scenario_wall_hit :: game where
  "scenario_wall_hit = (scenario_ball_at (- 3.6) 3.6 (- 1) 1)\<lparr>
      g_paddle_position := \<lparr>vec_x = - 4, vec_y = 3, vec_z = 0\<rparr>,
      paddle_y_distance := 0.15, paddle_right_y_distance := 3.15\<rparr>"

text \<open>
  The same at the right paddle, in tracking mode: the paddle is above its bound and the
  ball above the paddle.
\<close>

definition scenario_ai_wall :: game where
  "scenario_ai_wall = (scenario_ball_at 3.4 3.6 1 1)\<lparr>
      right_paddle_swtich := 1,
      g_right_paddle_position := \<lparr>vec_x = 4, vec_y = 3.4, vec_z = 0\<rparr>,
      paddle_y_distance := 3.15, paddle_right_y_distance := - 0.25\<rparr>"

section \<open>Which fields each phase of a frame writes\<close>

lemmas phase_defs = before_collision_def distance_calculations_def game_logic_def
  move_right_paddle_def move_paddle_def move_ball_def

lemmas eval_defs = phase_defs delta_time_def seconds_def MILLISECONDS_IN_SECOND_def
  vec3_add_def vec3_scale_def vec3_of_def INIT_BALL_SCALE_def INIT_PLAYER_1_SCALE_def
  INIT_PLAYER_2_SCALE_def initial_game_def collision_branch_def resolve_collision_def
  deflect_def vertical_bounce_def termination_check_def update_def

lemma before_collision_kept [simp]:
  "g_app_status (before_collision t s) = g_app_status s"
  "g_ball_movement (before_collision t s) = g_ball_movement s"
  "g_ball_speed (before_collision t s) = g_ball_speed s"
  "g_paddle_speed (before_collision t s) = g_paddle_speed s"
  "g_paddle_movement (before_collision t s) = g_paddle_movement s"
  "g_right_paddle_movement (before_collision t s) = g_right_paddle_movement s"
  "right_paddle_swtich (before_collision t s) = right_paddle_swtich s"
  by (simp_all add: phase_defs)

lemma before_collision_ball_position:
  "g_ball_position (before_collision t s) =
     vec3_add (g_ball_position s)
       (vec3_scale (vec3_scale (g_ball_movement s) (g_ball_speed s)) (delta_time t s))"
  by (simp add: phase_defs)

lemma before_collision_paddle_position:
  "g_paddle_position (before_collision t s) =
     vec3_add (g_paddle_position s)
       (vec3_scale (vec3_scale (g_paddle_movement s) (g_paddle_speed s)) (delta_time t s))"
  by (simp add: phase_defs)

lemma before_collision_distances:
  "paddle_y_distance (before_collision t s) =
     3.15 - vec_y (g_paddle_position (before_collision t s))"
  "paddle_right_y_distance (before_collision t s) =
     3.15 - vec_y (g_right_paddle_position (before_collision t s))"
  "paddle_ball_x_distance (before_collision t s) =
     \<bar>vec_x (g_ball_position (before_collision t s)) - vec_x (g_paddle_position (before_collision t s))\<bar> - 0.525"
  "paddle_ball_y_distance (before_collision t s) =
     \<bar>vec_y (g_ball_position (before_collision t s)) - vec_y (g_paddle_position (before_collision t s))\<bar> - 0.725"
  "right_paddle_ball_x_distance (before_collision t s) =
     \<bar>vec_x (g_ball_position (before_collision t s)) - vec_x (g_right_paddle_position (before_collision t s))\<bar> - 0.625"
  "right_paddle_ball_y_distance (before_collision t s) =
     \<bar>vec_y (g_ball_position (before_collision t s)) - vec_y (g_right_paddle_position (before_collision t s))\<bar> - 0.625"
  by (simp_all add: phase_defs INIT_BALL_SCALE_def INIT_PLAYER_1_SCALE_def INIT_PLAYER_2_SCALE_def)

lemma resolve_collision_left:
  "collision_branch s = LEFT_PADDLE \<Longrightarrow>
     vec_x (g_ball_movement (resolve_collision s)) = 1
     \<and> g_ball_speed (resolve_collision s) = g_ball_speed s * 1.015
     \<and> vec_y (g_ball_movement (resolve_collision s)) =
         (if vec_y (g_paddle_movement s) < 0 then - 1
          else if vec_y (g_paddle_movement s) > 0 then 1
          else vec_y (g_ball_movement s))"
  by (simp add: resolve_collision_def deflect_def)

lemma resolve_collision_right:
  "collision_branch s = RIGHT_PADDLE \<Longrightarrow>
     vec_x (g_ball_movement (resolve_collision s)) = - 1
     \<and> g_ball_speed (resolve_collision s) = g_ball_speed s * 1.015
     \<and> vec_y (g_ball_movement (resolve_collision s)) =
         (if vec_y (g_right_paddle_movement s) < 0 then - 1
          else if vec_y (g_right_paddle_movement s) > 0 then 1
          else vec_y (g_ball_movement s))"
  by (simp add: resolve_collision_def deflect_def)

lemma resolve_collision_none:
  "collision_branch s = NO_PADDLE \<Longrightarrow> resolve_collision s = s"
  by (simp add: resolve_collision_def)

lemma update_ball_movement_x:
  "vec_x (g_ball_movement (update t s)) =
     vec_x (g_ball_movement (resolve_collision (before_collision t s)))"
  by (simp add: update_def vertical_bounce_def termination_check_def)

lemma update_ball_movement_y:
  "vec_y (g_ball_movement (update t s)) =
     (if vec_y (g_ball_position (before_collision t s)) \<ge> 3.5
         \<or> vec_y (g_ball_position (before_collision t s)) \<le> - 3.5
      then - vec_y (g_ball_movement (resolve_collision (before_collision t s)))
      else vec_y (g_ball_movement (resolve_collision (before_collision t s))))"
  by (simp add: update_def vertical_bounce_def termination_check_def resolve_collision_def
      deflect_def split: branch.split)

lemma update_ball_speed:
  "g_ball_speed (update t s) = g_ball_speed (resolve_collision (before_collision t s))"
  by (simp add: update_def vertical_bounce_def termination_check_def)

lemma update_ball_position:
  "g_ball_position (update t s) = g_ball_position (before_collision t s)"
  by (simp add: update_def vertical_bounce_def termination_check_def resolve_collision_def
      deflect_def split: branch.split)

lemma poll_events_status_kept:
  "g_app_status s = TERMINATED \<Longrightarrow> g_app_status (poll_events es s) = TERMINATED"
proof (induction es arbitrary: s)
  case Nil
  then show ?case by simp
next
  case (Cons e es)
  have "g_app_status (handle_event e s) = TERMINATED"
    using Cons.prems by (cases "(e, s)" rule: handle_event.cases) simp_all
  then show ?case using Cons.IH by simp
qed

lemma keys_status [simp]:
  "g_app_status (key_W ks s) = g_app_status s"
  "g_app_status (key_S ks s) = g_app_status s"
  "g_app_status (key_UP ks s) = g_app_status s"
  "g_app_status (key_DOWN ks s) = g_app_status s"
  by (simp_all add: key_W_def key_S_def key_UP_def key_DOWN_def Let_def)

lemma process_input_status:
  "g_app_status (process_input inp s) = g_app_status (poll_events (events inp) s)"
  by (simp add: process_input_def Let_def)

lemma deflect_fields [simp]:
  "g_app_status (deflect m s) = g_app_status s"
  "g_ball_position (deflect m s) = g_ball_position s"
  "g_ball_speed (deflect m s) = g_ball_speed s"
  "vec_x (g_ball_movement (deflect m s)) = vec_x (g_ball_movement s)"
  "g_paddle_position (deflect m s) = g_paddle_position s"
  "g_right_paddle_position (deflect m s) = g_right_paddle_position s"
  "g_paddle_movement (deflect m s) = g_paddle_movement s"
  "g_right_paddle_movement (deflect m s) = g_right_paddle_movement s"
  "right_paddle_swtich (deflect m s) = right_paddle_swtich s"
  by (simp_all add: deflect_def)

lemma resolve_collision_fields [simp]:
  "g_app_status (resolve_collision s) = g_app_status s"
  "g_ball_position (resolve_collision s) = g_ball_position s"
  "g_paddle_position (resolve_collision s) = g_paddle_position s"
  "g_right_paddle_position (resolve_collision s) = g_right_paddle_position s"
  "g_paddle_movement (resolve_collision s) = g_paddle_movement s"
  "g_right_paddle_movement (resolve_collision s) = g_right_paddle_movement s"
  "right_paddle_swtich (resolve_collision s) = right_paddle_swtich s"
  by (simp_all add: resolve_collision_def split: branch.split)

lemma vertical_bounce_fields [simp]:
  "g_app_status (vertical_bounce s) = g_app_status s"
  "g_ball_position (vertical_bounce s) = g_ball_position s"
  "g_ball_speed (vertical_bounce s) = g_ball_speed s"
  "vec_x (g_ball_movement (vertical_bounce s)) = vec_x (g_ball_movement s)"
  "g_paddle_position (vertical_bounce s) = g_paddle_position s"
  "g_right_paddle_position (vertical_bounce s) = g_right_paddle_position s"
  "g_paddle_movement (vertical_bounce s) = g_paddle_movement s"
  "g_right_paddle_movement (vertical_bounce s) = g_right_paddle_movement s"
  "right_paddle_swtich (vertical_bounce s) = right_paddle_swtich s"
  by (simp_all add: vertical_bounce_def)

lemma termination_check_fields [simp]:
  "g_ball_position (termination_check s) = g_ball_position s"
  "g_ball_speed (termination_check s) = g_ball_speed s"
  "g_ball_movement (termination_check s) = g_ball_movement s"
  "g_paddle_position (termination_check s) = g_paddle_position s"
  "g_right_paddle_position (termination_check s) = g_right_paddle_position s"
  "g_paddle_movement (termination_check s) = g_paddle_movement s"
  "g_right_paddle_movement (termination_check s) = g_right_paddle_movement s"
  "right_paddle_swtich (termination_check s) = right_paddle_swtich s"
  by (simp_all add: termination_check_def)

lemma termination_check_status:
  "g_app_status (termination_check s) =
     (if vec_x (g_ball_position s) \<ge> 5 \<or> vec_x (g_ball_position s) \<le> - 5
      then TERMINATED else g_app_status s)"
  by (simp add: termination_check_def)

lemmas scenario_defs = scenario_ball_at_def no_keys_def idle_input_def key_down_input_def
  holding_def holding_input_def eval_defs

lemma update_right_paddle_position:
  "g_right_paddle_position (update t s) = g_right_paddle_position (before_collision t s)"
  by (simp add: update_def)

lemma update_paddle_position:
  "g_paddle_position (update t s) = g_paddle_position (before_collision t s)"
  by (simp add: update_def)

lemma scenario_left_hit_state:
  "g_ball_position (before_collision 10 scenario_left_hit) = \<lparr>vec_x = - 3.53, vec_y = 0.33, vec_z = 0\<rparr>"
  "g_paddle_position (before_collision 10 scenario_left_hit) = \<lparr>vec_x = - 4, vec_y = - 0.03, vec_z = 0\<rparr>"
  "paddle_ball_x_distance (before_collision 10 scenario_left_hit) = - 0.055"
  "paddle_ball_y_distance (before_collision 10 scenario_left_hit) = - 0.365"
  by (simp_all add: scenario_left_hit_def scenario_defs)

lemma scenario_right_hit_state:
  "g_ball_position (before_collision 10 scenario_right_hit) = \<lparr>vec_x = 3.43, vec_y = 0.27, vec_z = 0\<rparr>"
  "g_right_paddle_position (before_collision 10 scenario_right_hit) = \<lparr>vec_x = 4, vec_y = 0.03, vec_z = 0\<rparr>"
  "paddle_ball_x_distance (before_collision 10 scenario_right_hit) = 6.905"
  "right_paddle_ball_x_distance (before_collision 10 scenario_right_hit) = - 0.055"
  "right_paddle_ball_y_distance (before_collision 10 scenario_right_hit) = - 0.385"
  by (simp_all add: scenario_right_hit_def scenario_defs)

lemma scenario_both_paddles_state:
  "paddle_ball_x_distance (before_collision 0 scenario_both_paddles) = - 0.125"
  "paddle_ball_y_distance (before_collision 0 scenario_both_paddles) = - 0.725"
  "right_paddle_ball_x_distance (before_collision 0 scenario_both_paddles) = - 0.525"
  "right_paddle_ball_y_distance (before_collision 0 scenario_both_paddles) = - 0.625"
  by (simp_all add: scenario_both_paddles_def scenario_defs)

lemma main_loop_terminated:
  "g_app_status s = TERMINATED \<Longrightarrow> main_loop inps s = s"
  by (cases inps) simp_all

section \<open>What \<open>process_input\<close> writes\<close>

lemma handle_event_kept:
  "g_previous_ticks (handle_event e s) = g_previous_ticks s"
  "g_paddle_position (handle_event e s) = g_paddle_position s"
  "g_right_paddle_position (handle_event e s) = g_right_paddle_position s"
  "g_paddle_movement (handle_event e s) = g_paddle_movement s"
  "g_right_paddle_movement (handle_event e s) = g_right_paddle_movement s"
  "g_ball_position (handle_event e s) = g_ball_position s"
  "vec_y (g_ball_movement (handle_event e s)) = vec_y (g_ball_movement s)"
  "vec_z (g_ball_movement (handle_event e s)) = vec_z (g_ball_movement s)"
  "g_paddle_speed (handle_event e s) = g_paddle_speed s"
  "g_ball_speed (handle_event e s) = g_ball_speed s"
  "paddle_y_distance (handle_event e s) = paddle_y_distance s"
  "paddle_right_y_distance (handle_event e s) = paddle_right_y_distance s"
  by (cases "(e, s)" rule: handle_event.cases; simp)+

lemma poll_events_kept:
  "g_previous_ticks (poll_events es s) = g_previous_ticks s
   \<and> g_paddle_position (poll_events es s) = g_paddle_position s
   \<and> g_right_paddle_position (poll_events es s) = g_right_paddle_position s
   \<and> g_ball_position (poll_events es s) = g_ball_position s
   \<and> vec_y (g_ball_movement (poll_events es s)) = vec_y (g_ball_movement s)
   \<and> vec_z (g_ball_movement (poll_events es s)) = vec_z (g_ball_movement s)
   \<and> g_paddle_speed (poll_events es s) = g_paddle_speed s
   \<and> g_ball_speed (poll_events es s) = g_ball_speed s
   \<and> paddle_y_distance (poll_events es s) = paddle_y_distance s
   \<and> paddle_right_y_distance (poll_events es s) = paddle_right_y_distance s"
  by (induction es arbitrary: s) (simp_all add: handle_event_kept)

lemma key_W_kept [simp]:
  "g_app_status (key_W ks s) = g_app_status s"
  "right_paddle_swtich (key_W ks s) = right_paddle_swtich s"
  "g_previous_ticks (key_W ks s) = g_previous_ticks s"
  "g_paddle_position (key_W ks s) = g_paddle_position s"
  "g_right_paddle_position (key_W ks s) = g_right_paddle_position s"
  "g_right_paddle_movement (key_W ks s) = g_right_paddle_movement s"
  "g_ball_position (key_W ks s) = g_ball_position s"
  "g_ball_movement (key_W ks s) = g_ball_movement s"
  "g_paddle_speed (key_W ks s) = g_paddle_speed s"
  "g_ball_speed (key_W ks s) = g_ball_speed s"
  "paddle_y_distance (key_W ks s) = paddle_y_distance s"
  "paddle_right_y_distance (key_W ks s) = paddle_right_y_distance s"
  by (simp_all add: key_W_def Let_def)

lemma key_S_kept [simp]:
  "g_app_status (key_S ks s) = g_app_status s"
  "right_paddle_swtich (key_S ks s) = right_paddle_swtich s"
  "g_previous_ticks (key_S ks s) = g_previous_ticks s"
  "g_paddle_position (key_S ks s) = g_paddle_position s"
  "g_right_paddle_position (key_S ks s) = g_right_paddle_position s"
  "g_right_paddle_movement (key_S ks s) = g_right_paddle_movement s"
  "g_ball_position (key_S ks s) = g_ball_position s"
  "g_ball_movement (key_S ks s) = g_ball_movement s"
  "g_paddle_speed (key_S ks s) = g_paddle_speed s"
  "g_ball_speed (key_S ks s) = g_ball_speed s"
  "paddle_y_distance (key_S ks s) = paddle_y_distance s"
  "paddle_right_y_distance (key_S ks s) = paddle_right_y_distance s"
  by (simp_all add: key_S_def Let_def)

lemma key_UP_kept [simp]:
  "g_app_status (key_UP ks s) = g_app_status s"
  "right_paddle_swtich (key_UP ks s) = right_paddle_swtich s"
  "g_previous_ticks (key_UP ks s) = g_previous_ticks s"
  "g_paddle_position (key_UP ks s) = g_paddle_position s"
  "g_right_paddle_position (key_UP ks s) = g_right_paddle_position s"
  "g_paddle_movement (key_UP ks s) = g_paddle_movement s"
  "g_ball_position (key_UP ks s) = g_ball_position s"
  "g_ball_movement (key_UP ks s) = g_ball_movement s"
  "g_paddle_speed (key_UP ks s) = g_paddle_speed s"
  "g_ball_speed (key_UP ks s) = g_ball_speed s"
  "paddle_y_distance (key_UP ks s) = paddle_y_distance s"
  "paddle_right_y_distance (key_UP ks s) = paddle_right_y_distance s"
  by (simp_all add: key_UP_def Let_def)

lemma key_DOWN_kept [simp]:
  "g_app_status (key_DOWN ks s) = g_app_status s"
  "right_paddle_swtich (key_DOWN ks s) = right_paddle_swtich s"
  "g_previous_ticks (key_DOWN ks s) = g_previous_ticks s"
  "g_paddle_position (key_DOWN ks s) = g_paddle_position s"
  "g_right_paddle_position (key_DOWN ks s) = g_right_paddle_position s"
  "g_paddle_movement (key_DOWN ks s) = g_paddle_movement s"
  "g_ball_position (key_DOWN ks s) = g_ball_position s"
  "g_ball_movement (key_DOWN ks s) = g_ball_movement s"
  "g_paddle_speed (key_DOWN ks s) = g_paddle_speed s"
  "g_ball_speed (key_DOWN ks s) = g_ball_speed s"
  "paddle_y_distance (key_DOWN ks s) = paddle_y_distance s"
  "paddle_right_y_distance (key_DOWN ks s) = paddle_right_y_distance s"
  by (simp_all add: key_DOWN_def Let_def)

lemma key_W_movement:
  "g_paddle_movement (key_W ks s) =
     (if ks SDL_SCANCODE_W \<noteq> 0
      then (g_paddle_movement s)\<lparr>vec_y := (if paddle_y_distance s \<le> 0 then 0 else 1)\<rparr>
      else g_paddle_movement s)"
  by (simp add: key_W_def Let_def)

lemma key_S_movement:
  "g_paddle_movement (key_S ks s) =
     (if ks SDL_SCANCODE_S \<noteq> 0
      then (g_paddle_movement s)\<lparr>vec_y := (if paddle_y_distance s \<ge> 6.3 then 0 else - 1)\<rparr>
      else g_paddle_movement s)"
  by (simp add: key_S_def Let_def)

lemma key_UP_movement:
  "g_right_paddle_movement (key_UP ks s) =
     (if ks SDL_SCANCODE_UP \<noteq> 0
      then (g_right_paddle_movement s)\<lparr>vec_y := (if paddle_right_y_distance s \<le> 0 then 0 else 1)\<rparr>
      else g_right_paddle_movement s)"
  by (simp add: key_UP_def Let_def)

lemma key_DOWN_movement:
  "g_right_paddle_movement (key_DOWN ks s) =
     (if ks SDL_SCANCODE_DOWN \<noteq> 0
      then (g_right_paddle_movement s)\<lparr>vec_y := (if paddle_right_y_distance s \<ge> 6.3 then 0 else - 1)\<rparr>
      else g_right_paddle_movement s)"
  by (simp add: key_DOWN_def Let_def)

lemma process_input_kept:
  "g_previous_ticks (process_input inp s) = g_previous_ticks s"
  "g_paddle_position (process_input inp s) = g_paddle_position s"
  "g_right_paddle_position (process_input inp s) = g_right_paddle_position s"
  "g_ball_position (process_input inp s) = g_ball_position s"
  "vec_y (g_ball_movement (process_input inp s)) = vec_y (g_ball_movement s)"
  "vec_z (g_ball_movement (process_input inp s)) = vec_z (g_ball_movement s)"
  "g_paddle_speed (process_input inp s) = g_paddle_speed s"
  "g_ball_speed (process_input inp s) = g_ball_speed s"
  "paddle_y_distance (process_input inp s) = paddle_y_distance s"
  "paddle_right_y_distance (process_input inp s) = paddle_right_y_distance s"
  by (simp_all add: process_input_def Let_def poll_events_kept)

lemma process_input_from_events:
  "g_app_status (process_input inp s) = g_app_status (poll_events (events inp) s)"
  "right_paddle_swtich (process_input inp s) = right_paddle_swtich (poll_events (events inp) s)"
  "g_ball_movement (process_input inp s) = g_ball_movement (poll_events (events inp) s)"
  by (simp_all add: process_input_def Let_def)

lemma process_input_paddle_movement:
  "g_paddle_movement (process_input inp s) =
     \<lparr>vec_x = 0,
      vec_y = (if held inp SDL_SCANCODE_S then (if paddle_y_distance s \<ge> 6.3 then 0 else - 1)
               else if held inp SDL_SCANCODE_W then (if paddle_y_distance s \<le> 0 then 0 else 1)
               else 0),
      vec_z = 0\<rparr>"
  by (simp add: process_input_def Let_def key_W_movement key_S_movement poll_events_kept
      held_def vec3_of_def)

lemma process_input_right_paddle_movement:
  "g_right_paddle_movement (process_input inp s) =
     \<lparr>vec_x = 0,
      vec_y = (if held inp SDL_SCANCODE_DOWN
               then (if paddle_right_y_distance s \<ge> 6.3 then 0 else - 1)
               else if held inp SDL_SCANCODE_UP
               then (if paddle_right_y_distance s \<le> 0 then 0 else 1)
               else 0),
      vec_z = 0\<rparr>"
  by (simp add: process_input_def Let_def key_UP_movement key_DOWN_movement poll_events_kept
      held_def vec3_of_def)

lemma update_distances:
  "paddle_y_distance (update t s) = 3.15 - vec_y (g_paddle_position (update t s))"
  "paddle_right_y_distance (update t s) = 3.15 - vec_y (g_right_paddle_position (update t s))"
  by (simp_all add: update_def termination_check_def vertical_bounce_def resolve_collision_def
      deflect_def before_collision_distances split: branch.split)

lemma scenario_near_top_frame:
  "g_paddle_movement (process_input (holding_input SDL_SCANCODE_W 100) scenario_near_top)
     = \<lparr>vec_x = 0, vec_y = 1, vec_z = 0\<rparr>"
  "g_paddle_position (frame (holding_input SDL_SCANCODE_W 100) scenario_near_top)
     = \<lparr>vec_x = - 4, vec_y = 3.4, vec_z = 0\<rparr>"
  "paddle_y_distance (frame (holding_input SDL_SCANCODE_W 100) scenario_near_top) = - 0.25"
  "held (holding_input SDL_SCANCODE_W 200) SDL_SCANCODE_S = False"
proof -
  show m: "g_paddle_movement (process_input (holding_input SDL_SCANCODE_W 100) scenario_near_top)
     = \<lparr>vec_x = 0, vec_y = 1, vec_z = 0\<rparr>"
    by (simp add: process_input_paddle_movement held_def holding_input_def holding_def
        scenario_near_top_def)
  have f: "g_paddle_position scenario_near_top = \<lparr>vec_x = - 4, vec_y = 3.1, vec_z = 0\<rparr>"
    "g_paddle_speed scenario_near_top = 3" "g_previous_ticks scenario_near_top = 0"
    by (simp_all add: scenario_near_top_def initial_game_def)
  have g: "ticks_ms (holding_input SDL_SCANCODE_W 100) = 100"
    by (simp add: holding_input_def)
  show p: "g_paddle_position (frame (holding_input SDL_SCANCODE_W 100) scenario_near_top)
     = \<lparr>vec_x = - 4, vec_y = 3.4, vec_z = 0\<rparr>"
    by (simp add: frame_def update_paddle_position before_collision_paddle_position m
        process_input_kept delta_time_def seconds_def MILLISECONDS_IN_SECOND_def
        f g vec3_add_def vec3_scale_def)
  show "paddle_y_distance (frame (holding_input SDL_SCANCODE_W 100) scenario_near_top) = - 0.25"
    using p by (simp add: frame_def update_distances)
  show "held (holding_input SDL_SCANCODE_W 200) SDL_SCANCODE_S = False"
    by (simp add: held_def holding_input_def holding_def)
qed

section \<open>Events without a case\<close>

lemma handle_event_unhandled:
  "\<not> handled_event e \<Longrightarrow> handle_event e s = s"
  by (cases "(e, s)" rule: handle_event.cases) simp_all

lemma poll_events_filter:
  "poll_events (filter handled_event es) s = poll_events es s"
  by (induction es arbitrary: s) (simp_all add: handle_event_unhandled)

lemma process_input_agree:
  assumes "inputs_agree handled_event i1 i2"
  shows "process_input i1 s = process_input i2 s"
proof -
  have e: "poll_events (events i1) s = poll_events (events i2) s"
    using assms poll_events_filter [of "events i1" s] poll_events_filter [of "events i2" s]
    by (simp add: inputs_agree_def)
  have k: "(key_state i1 SDL_SCANCODE_W \<noteq> 0) = (key_state i2 SDL_SCANCODE_W \<noteq> 0)"
    "(key_state i1 SDL_SCANCODE_S \<noteq> 0) = (key_state i2 SDL_SCANCODE_S \<noteq> 0)"
    "(key_state i1 SDL_SCANCODE_UP \<noteq> 0) = (key_state i2 SDL_SCANCODE_UP \<noteq> 0)"
    "(key_state i1 SDL_SCANCODE_DOWN \<noteq> 0) = (key_state i2 SDL_SCANCODE_DOWN \<noteq> 0)"
    using assms by (simp_all add: inputs_agree_def held_def)
  have w: "key_W (key_state i1) = key_W (key_state i2)"
    using k(1) by (auto simp add: key_W_def fun_eq_iff)
  have s: "key_S (key_state i1) = key_S (key_state i2)"
    using k(2) by (auto simp add: key_S_def fun_eq_iff)
  have u: "key_UP (key_state i1) = key_UP (key_state i2)"
    using k(3) by (auto simp add: key_UP_def fun_eq_iff)
  have d: "key_DOWN (key_state i1) = key_DOWN (key_state i2)"
    using k(4) by (auto simp add: key_DOWN_def fun_eq_iff)
  show ?thesis
    unfolding process_input_def e w s u d ..
qed

lemma scenario_ai_hit_fields:
  "g_ball_position scenario_ai_hit = \<lparr>vec_x = 3.4, vec_y = - 0.3, vec_z = 0\<rparr>"
  "g_ball_movement scenario_ai_hit = \<lparr>vec_x = 1, vec_y = - 1, vec_z = 0\<rparr>"
  "g_paddle_position scenario_ai_hit = \<lparr>vec_x = - 4, vec_y = 0, vec_z = 0\<rparr>"
  "g_right_paddle_position scenario_ai_hit = \<lparr>vec_x = 4, vec_y = 0, vec_z = 0\<rparr>"
  "g_ball_speed scenario_ai_hit = 3"
  "g_paddle_speed scenario_ai_hit = 3"
  "g_previous_ticks scenario_ai_hit = 0"
  "right_paddle_swtich scenario_ai_hit = 1"
  "paddle_y_distance scenario_ai_hit = 3.15"
  "paddle_right_y_distance scenario_ai_hit = 3.15"
  by (simp_all add: scenario_ai_hit_def scenario_ball_at_def initial_game_def)

lemma scenario_ai_hit_idle:
  "right_paddle_swtich (process_input (idle_input 10) scenario_ai_hit) = 1"
  "g_right_paddle_position (frame (idle_input 10) scenario_ai_hit) = \<lparr>vec_x = 4, vec_y = - 0.03, vec_z = 0\<rparr>"
  "g_ball_position (frame (idle_input 10) scenario_ai_hit) = \<lparr>vec_x = 3.43, vec_y = - 0.33, vec_z = 0\<rparr>"
  "collision_branch (before_collision 10 (process_input (idle_input 10) scenario_ai_hit)) = RIGHT_PADDLE"
proof -
  have t: "ticks_ms (idle_input 10) = 10" "events (idle_input 10) = []"
    by (simp_all add: idle_input_def)
  show s: "right_paddle_swtich (process_input (idle_input 10) scenario_ai_hit) = 1"
    by (simp add: process_input_from_events t scenario_ai_hit_fields)
  have bm: "g_ball_movement (process_input (idle_input 10) scenario_ai_hit)
      = \<lparr>vec_x = 1, vec_y = - 1, vec_z = 0\<rparr>"
    by (simp add: process_input_from_events t scenario_ai_hit_fields)
  have pm: "g_paddle_movement (process_input (idle_input 10) scenario_ai_hit)
      = \<lparr>vec_x = 0, vec_y = 0, vec_z = 0\<rparr>"
    by (simp add: process_input_paddle_movement held_def idle_input_def no_keys_def)
  have bp: "g_ball_position (before_collision 10 (process_input (idle_input 10) scenario_ai_hit))
      = \<lparr>vec_x = 3.43, vec_y = - 0.33, vec_z = 0\<rparr>"
    by (simp add: before_collision_ball_position bm process_input_kept scenario_ai_hit_fields
        delta_time_def seconds_def MILLISECONDS_IN_SECOND_def vec3_add_def vec3_scale_def)
  have pp: "g_paddle_position (before_collision 10 (process_input (idle_input 10) scenario_ai_hit))
      = \<lparr>vec_x = - 4, vec_y = 0, vec_z = 0\<rparr>"
    by (simp add: before_collision_paddle_position pm process_input_kept scenario_ai_hit_fields
        vec3_add_def vec3_scale_def)
  have rp: "g_right_paddle_position (before_collision 10 (process_input (idle_input 10) scenario_ai_hit))
      = \<lparr>vec_x = 4, vec_y = - 0.03, vec_z = 0\<rparr>"
    by (simp add: phase_defs s bm process_input_kept scenario_ai_hit_fields
        delta_time_def seconds_def MILLISECONDS_IN_SECOND_def vec3_add_def vec3_scale_def)
  show "g_right_paddle_position (frame (idle_input 10) scenario_ai_hit) = \<lparr>vec_x = 4, vec_y = - 0.03, vec_z = 0\<rparr>"
    by (simp add: frame_def t update_right_paddle_position rp)
  show "g_ball_position (frame (idle_input 10) scenario_ai_hit) = \<lparr>vec_x = 3.43, vec_y = - 0.33, vec_z = 0\<rparr>"
    by (simp add: frame_def t update_ball_position bp)
  show "collision_branch (before_collision 10 (process_input (idle_input 10) scenario_ai_hit)) = RIGHT_PADDLE"
    by (simp add: collision_branch_def before_collision_distances bp pp rp)
qed

lemma scenario_ai_hit_up:
  "right_paddle_swtich (process_input (holding_input SDL_SCANCODE_UP 10) scenario_ai_hit) = 1"
  "g_right_paddle_position (frame (holding_input SDL_SCANCODE_UP 10) scenario_ai_hit) = \<lparr>vec_x = 4, vec_y = - 0.03, vec_z = 0\<rparr>"
  "g_ball_position (frame (holding_input SDL_SCANCODE_UP 10) scenario_ai_hit) = \<lparr>vec_x = 3.43, vec_y = - 0.33, vec_z = 0\<rparr>"
  "collision_branch (before_collision 10 (process_input (holding_input SDL_SCANCODE_UP 10) scenario_ai_hit)) = RIGHT_PADDLE"
proof -
  have t: "ticks_ms (holding_input SDL_SCANCODE_UP 10) = 10" "events (holding_input SDL_SCANCODE_UP 10) = []"
    by (simp_all add: holding_input_def)
  show s: "right_paddle_swtich (process_input (holding_input SDL_SCANCODE_UP 10) scenario_ai_hit) = 1"
    by (simp add: process_input_from_events t scenario_ai_hit_fields)
  have bm: "g_ball_movement (process_input (holding_input SDL_SCANCODE_UP 10) scenario_ai_hit)
      = \<lparr>vec_x = 1, vec_y = - 1, vec_z = 0\<rparr>"
    by (simp add: process_input_from_events t scenario_ai_hit_fields)
  have pm: "g_paddle_movement (process_input (holding_input SDL_SCANCODE_UP 10) scenario_ai_hit)
      = \<lparr>vec_x = 0, vec_y = 0, vec_z = 0\<rparr>"
    by (simp add: process_input_paddle_movement held_def holding_input_def holding_def)
  have bp: "g_ball_position (before_collision 10 (process_input (holding_input SDL_SCANCODE_UP 10) scenario_ai_hit))
      = \<lparr>vec_x = 3.43, vec_y = - 0.33, vec_z = 0\<rparr>"
    by (simp add: before_collision_ball_position bm process_input_kept scenario_ai_hit_fields
        delta_time_def seconds_def MILLISECONDS_IN_SECOND_def vec3_add_def vec3_scale_def)
  have pp: "g_paddle_position (before_collision 10 (process_input (holding_input SDL_SCANCODE_UP 10) scenario_ai_hit))
      = \<lparr>vec_x = - 4, vec_y = 0, vec_z = 0\<rparr>"
    by (simp add: before_collision_paddle_position pm process_input_kept scenario_ai_hit_fields
        vec3_add_def vec3_scale_def)
  have rp: "g_right_paddle_position (before_collision 10 (process_input (holding_input SDL_SCANCODE_UP 10) scenario_ai_hit))
      = \<lparr>vec_x = 4, vec_y = - 0.03, vec_z = 0\<rparr>"
    by (simp add: phase_defs s bm process_input_kept scenario_ai_hit_fields
        delta_time_def seconds_def MILLISECONDS_IN_SECOND_def vec3_add_def vec3_scale_def)
  show "g_right_paddle_position (frame (holding_input SDL_SCANCODE_UP 10) scenario_ai_hit) = \<lparr>vec_x = 4, vec_y = - 0.03, vec_z = 0\<rparr>"
    by (simp add: frame_def t update_right_paddle_position rp)
  show "g_ball_position (frame (holding_input SDL_SCANCODE_UP 10) scenario_ai_hit) = \<lparr>vec_x = 3.43, vec_y = - 0.33, vec_z = 0\<rparr>"
    by (simp add: frame_def t update_ball_position bp)
  show "collision_branch (before_collision 10 (process_input (holding_input SDL_SCANCODE_UP 10) scenario_ai_hit)) = RIGHT_PADDLE"
    by (simp add: collision_branch_def before_collision_distances bp pp rp)
qed

section \<open>The ball speed along the main loop\<close>

lemma frame_ball_speed:
  "g_ball_speed (frame inp s) =
     g_ball_speed s *
       (if collision_branch (before_collision (ticks_ms inp) (process_input inp s)) = NO_PADDLE
        then 1 else 1.015)"
proof (cases "collision_branch (before_collision (ticks_ms inp) (process_input inp s))")
  case LEFT_PADDLE
  then show ?thesis using resolve_collision_left [OF LEFT_PADDLE]
    by (simp add: frame_def update_ball_speed process_input_kept)
next
  case RIGHT_PADDLE
  then show ?thesis using resolve_collision_right [OF RIGHT_PADDLE]
    by (simp add: frame_def update_ball_speed process_input_kept)
next
  case NO_PADDLE
  then show ?thesis
    by (simp add: frame_def update_ball_speed process_input_kept resolve_collision_none)
qed

lemma main_loop_ball_speed:
  "g_ball_speed (main_loop inps s) = g_ball_speed s * 1.015 ^ collision_count inps s"
proof (induction inps arbitrary: s)
  case Nil
  then show ?case by simp
next
  case (Cons inp inps)
  show ?case
  proof (cases "g_app_status s = RUNNING")
    case True
    then show ?thesis
      using Cons.IH [of "frame inp s"] by (simp add: frame_ball_speed)
  next
    case False
    then show ?thesis by simp
  qed
qed

lemma main_loop_snoc:
  "main_loop (inps @ [inp]) s =
     (if g_app_status (main_loop inps s) = RUNNING then frame inp (main_loop inps s)
      else main_loop inps s)"
  by (induction inps arbitrary: s) simp_all

lemma frame_ball_speed_mono:
  "0 \<le> g_ball_speed s \<Longrightarrow> g_ball_speed s \<le> g_ball_speed (frame inp s)"
proof -
  assume p: "0 \<le> g_ball_speed s"
  have "g_ball_speed s * 1 \<le> g_ball_speed s * 1.015"
    using p by (intro mult_left_mono) simp_all
  then show ?thesis by (simp add: frame_ball_speed)
qed

section \<open>A two-frame execution with one paddle hit\<close>

lemma deflect_clock [simp]:
  "g_previous_ticks (deflect m s) = g_previous_ticks s"
  "g_paddle_speed (deflect m s) = g_paddle_speed s"
  by (simp_all add: deflect_def)

lemma resolve_collision_clock [simp]:
  "g_previous_ticks (resolve_collision s) = g_previous_ticks s"
  "g_paddle_speed (resolve_collision s) = g_paddle_speed s"
  by (simp_all add: resolve_collision_def split: branch.split)

lemma vertical_bounce_clock [simp]:
  "g_previous_ticks (vertical_bounce s) = g_previous_ticks s"
  "g_paddle_speed (vertical_bounce s) = g_paddle_speed s"
  by (simp_all add: vertical_bounce_def)

lemma termination_check_clock [simp]:
  "g_previous_ticks (termination_check s) = g_previous_ticks s"
  "g_paddle_speed (termination_check s) = g_paddle_speed s"
  by (simp_all add: termination_check_def)

lemma before_collision_previous_ticks:
  "g_previous_ticks (before_collision t s) = seconds t"
  by (simp add: phase_defs)

lemma update_previous_ticks:
  "g_previous_ticks (update t s) = seconds t"
  by (simp add: update_def before_collision_previous_ticks)

lemma update_speeds:
  "g_paddle_speed (update t s) = g_paddle_speed s"
  by (simp add: update_def)

lemma serve_frame_state:
  "g_app_status (frame (key_down_input SDLK_p 0) initial_game) = RUNNING"
  "collision_branch (before_collision 0 (process_input (key_down_input SDLK_p 0) initial_game)) = NO_PADDLE"
  "g_ball_position (frame (key_down_input SDLK_p 0) initial_game) = \<lparr>vec_x = 0, vec_y = 0, vec_z = 0\<rparr>"
  "vec_x (g_ball_movement (frame (key_down_input SDLK_p 0) initial_game)) = - 1"
  "vec_y (g_ball_movement (frame (key_down_input SDLK_p 0) initial_game)) = 0"
  "g_paddle_position (frame (key_down_input SDLK_p 0) initial_game) = \<lparr>vec_x = - 4, vec_y = 0, vec_z = 0\<rparr>"
  "g_ball_speed (frame (key_down_input SDLK_p 0) initial_game) = 3"
  "g_paddle_speed (frame (key_down_input SDLK_p 0) initial_game) = 3"
  "g_previous_ticks (frame (key_down_input SDLK_p 0) initial_game) = 0"
proof -
  have t: "ticks_ms (key_down_input SDLK_p 0) = 0" "events (key_down_input SDLK_p 0) = [SDL_KEYDOWN SDLK_p]"
    by (simp_all add: key_down_input_def)
  have i: "g_ball_position initial_game = \<lparr>vec_x = 0, vec_y = 0, vec_z = 0\<rparr>"
    "g_paddle_position initial_game = \<lparr>vec_x = - 4, vec_y = 0, vec_z = 0\<rparr>"
    "g_right_paddle_position initial_game = \<lparr>vec_x = 4, vec_y = 0, vec_z = 0\<rparr>"
    "g_ball_speed initial_game = 3" "g_paddle_speed initial_game = 3"
    "g_previous_ticks initial_game = 0" "g_app_status initial_game = RUNNING"
    "g_ball_movement initial_game = \<lparr>vec_x = 0, vec_y = 0, vec_z = 0\<rparr>"
    by (simp_all add: initial_game_def)
  have st: "g_app_status (process_input (key_down_input SDLK_p 0) initial_game) = RUNNING"
    by (simp add: process_input_from_events t i)
  have bm: "g_ball_movement (process_input (key_down_input SDLK_p 0) initial_game)
      = \<lparr>vec_x = - 1, vec_y = 0, vec_z = 0\<rparr>"
    by (simp add: process_input_from_events t i)
  have dt: "delta_time 0 (process_input (key_down_input SDLK_p 0) initial_game) = 0"
    by (simp add: delta_time_def seconds_def process_input_kept i)
  have bp: "g_ball_position (before_collision 0 (process_input (key_down_input SDLK_p 0) initial_game))
      = \<lparr>vec_x = 0, vec_y = 0, vec_z = 0\<rparr>"
    by (simp add: before_collision_ball_position dt process_input_kept i vec3_add_def vec3_scale_def)
  have pp: "g_paddle_position (before_collision 0 (process_input (key_down_input SDLK_p 0) initial_game))
      = \<lparr>vec_x = - 4, vec_y = 0, vec_z = 0\<rparr>"
    by (simp add: before_collision_paddle_position dt process_input_kept i vec3_add_def vec3_scale_def)
  have rp: "vec_x (g_right_paddle_position (before_collision 0 (process_input (key_down_input SDLK_p 0) initial_game))) = 4"
    by (simp add: phase_defs process_input_kept process_input_right_paddle_movement i
        vec3_add_def vec3_scale_def)
  show b: "collision_branch (before_collision 0 (process_input (key_down_input SDLK_p 0) initial_game)) = NO_PADDLE"
    by (simp add: collision_branch_def before_collision_distances bp pp rp)
  show "g_app_status (frame (key_down_input SDLK_p 0) initial_game) = RUNNING"
    by (simp add: frame_def t update_def termination_check_status bp st)
  show "g_ball_position (frame (key_down_input SDLK_p 0) initial_game) = \<lparr>vec_x = 0, vec_y = 0, vec_z = 0\<rparr>"
    by (simp add: frame_def t update_ball_position bp)
  show "vec_x (g_ball_movement (frame (key_down_input SDLK_p 0) initial_game)) = - 1"
    using b by (simp add: frame_def t update_ball_movement_x resolve_collision_none bm)
  show "vec_y (g_ball_movement (frame (key_down_input SDLK_p 0) initial_game)) = 0"
    using b by (simp add: frame_def t update_ball_movement_y resolve_collision_none bm bp)
  show "g_paddle_position (frame (key_down_input SDLK_p 0) initial_game) = \<lparr>vec_x = - 4, vec_y = 0, vec_z = 0\<rparr>"
    by (simp add: frame_def t update_paddle_position pp)
  show "g_ball_speed (frame (key_down_input SDLK_p 0) initial_game) = 3"
    using b by (simp add: frame_ball_speed t i)
  show "g_paddle_speed (frame (key_down_input SDLK_p 0) initial_game) = 3"
    by (simp add: frame_def update_speeds process_input_kept i)
  show "g_previous_ticks (frame (key_down_input SDLK_p 0) initial_game) = 0"
    by (simp add: frame_def update_previous_ticks t seconds_def)
qed

lemma return_frame_branch:
  "collision_branch (before_collision 1200 (process_input (idle_input 1200)
      (frame (key_down_input SDLK_p 0) initial_game))) = LEFT_PADDLE"
proof -
  have t: "events (idle_input 1200) = []"
    by (simp add: idle_input_def)
  have dt: "delta_time 1200 (process_input (idle_input 1200)
      (frame (key_down_input SDLK_p 0) initial_game)) = 1.2"
    by (simp add: delta_time_def seconds_def MILLISECONDS_IN_SECOND_def process_input_kept serve_frame_state)
  have bx: "vec_x (g_ball_movement (process_input (idle_input 1200)
      (frame (key_down_input SDLK_p 0) initial_game))) = - 1"
    by (simp add: process_input_from_events t serve_frame_state)
  have bp: "vec_x (g_ball_position (before_collision 1200 (process_input (idle_input 1200)
      (frame (key_down_input SDLK_p 0) initial_game)))) = - 3.6"
    "vec_y (g_ball_position (before_collision 1200 (process_input (idle_input 1200)
      (frame (key_down_input SDLK_p 0) initial_game)))) = 0"
    by (simp_all add: before_collision_ball_position dt bx process_input_kept serve_frame_state
        vec3_add_def vec3_scale_def)
  have pm: "g_paddle_movement (process_input (idle_input 1200)
      (frame (key_down_input SDLK_p 0) initial_game)) = \<lparr>vec_x = 0, vec_y = 0, vec_z = 0\<rparr>"
    by (simp add: process_input_paddle_movement held_def idle_input_def no_keys_def)
  have pp: "g_paddle_position (before_collision 1200 (process_input (idle_input 1200)
      (frame (key_down_input SDLK_p 0) initial_game))) = \<lparr>vec_x = - 4, vec_y = 0, vec_z = 0\<rparr>"
    by (simp add: before_collision_paddle_position pm process_input_kept serve_frame_state
        vec3_add_def vec3_scale_def)
  show ?thesis
    by (simp add: collision_branch_def before_collision_distances bp pp)
qed

lemma serve_and_return_count:
  "collision_count serve_and_return initial_game = 1"
proof -
  have a: "g_app_status initial_game = RUNNING"
    by (simp add: initial_game_def)
  have t: "ticks_ms (key_down_input SDLK_p 0) = 0" "ticks_ms (idle_input 1200) = 1200"
    by (simp_all add: key_down_input_def idle_input_def)
  show ?thesis
    by (simp add: serve_and_return_def a t return_frame_branch serve_frame_state)
qed

section \<open>Paddle hits at the upper bound\<close>

lemma scenario_wall_hit_fields:
  "g_ball_position scenario_wall_hit = \<lparr>vec_x = - 3.6, vec_y = 3.6, vec_z = 0\<rparr>"
  "g_ball_movement scenario_wall_hit = \<lparr>vec_x = - 1, vec_y = 1, vec_z = 0\<rparr>"
  "g_paddle_position scenario_wall_hit = \<lparr>vec_x = - 4, vec_y = 3, vec_z = 0\<rparr>"
  "g_right_paddle_position scenario_wall_hit = \<lparr>vec_x = 4, vec_y = 0, vec_z = 0\<rparr>"
  "g_ball_speed scenario_wall_hit = 3"
  "g_paddle_speed scenario_wall_hit = 3"
  "g_previous_ticks scenario_wall_hit = 0"
  "right_paddle_swtich scenario_wall_hit = - 1"
  "paddle_y_distance scenario_wall_hit = 0.15"
  "paddle_right_y_distance scenario_wall_hit = 3.15"
  by (simp_all add: scenario_wall_hit_def scenario_ball_at_def initial_game_def)

lemma scenario_wall_hit_frame:
  assumes e: "events inp = []" and t: "ticks_ms inp = 10"
    and pm: "g_paddle_movement (process_input inp scenario_wall_hit) = \<lparr>vec_x = 0, vec_y = m, vec_z = 0\<rparr>"
    and m: "m = - 1 \<or> m = 0 \<or> m = 1"
  shows "g_ball_position (before_collision 10 (process_input inp scenario_wall_hit))
           = \<lparr>vec_x = - 3.63, vec_y = 3.63, vec_z = 0\<rparr>"
    and "g_paddle_position (before_collision 10 (process_input inp scenario_wall_hit))
           = \<lparr>vec_x = - 4, vec_y = 3 + 0.03 * m, vec_z = 0\<rparr>"
    and "paddle_ball_x_distance (before_collision 10 (process_input inp scenario_wall_hit)) \<le> 0"
    and "paddle_ball_y_distance (before_collision 10 (process_input inp scenario_wall_hit)) \<le> 0"
    and "collision_branch (before_collision 10 (process_input inp scenario_wall_hit)) = LEFT_PADDLE"
    and "g_ball_movement (process_input inp scenario_wall_hit) = \<lparr>vec_x = - 1, vec_y = 1, vec_z = 0\<rparr>"
proof -
  show bm: "g_ball_movement (process_input inp scenario_wall_hit) = \<lparr>vec_x = - 1, vec_y = 1, vec_z = 0\<rparr>"
    by (simp add: process_input_from_events e scenario_wall_hit_fields)
  have dt: "delta_time 10 (process_input inp scenario_wall_hit) = 0.01"
    by (simp add: delta_time_def seconds_def MILLISECONDS_IN_SECOND_def process_input_kept
        scenario_wall_hit_fields)
  show bp: "g_ball_position (before_collision 10 (process_input inp scenario_wall_hit))
           = \<lparr>vec_x = - 3.63, vec_y = 3.63, vec_z = 0\<rparr>"
    by (simp add: before_collision_ball_position bm dt process_input_kept scenario_wall_hit_fields
        vec3_add_def vec3_scale_def)
  show pp: "g_paddle_position (before_collision 10 (process_input inp scenario_wall_hit))
           = \<lparr>vec_x = - 4, vec_y = 3 + 0.03 * m, vec_z = 0\<rparr>"
    by (simp add: before_collision_paddle_position pm dt process_input_kept scenario_wall_hit_fields
        vec3_add_def vec3_scale_def)
  show dx: "paddle_ball_x_distance (before_collision 10 (process_input inp scenario_wall_hit)) \<le> 0"
    by (simp add: before_collision_distances bp pp)
  show dy: "paddle_ball_y_distance (before_collision 10 (process_input inp scenario_wall_hit)) \<le> 0"
    using m by (auto simp add: before_collision_distances bp pp)
  show "collision_branch (before_collision 10 (process_input inp scenario_wall_hit)) = LEFT_PADDLE"
    using dx dy by (simp add: collision_branch_def)
qed

lemma scenario_wall_hit_keys:
  "events (holding_input k 10) = []" "ticks_ms (holding_input k 10) = 10"
  "events (idle_input 10) = []" "ticks_ms (idle_input 10) = 10"
  "g_paddle_movement (process_input (holding_input SDL_SCANCODE_W 10) scenario_wall_hit)
     = \<lparr>vec_x = 0, vec_y = 1, vec_z = 0\<rparr>"
  "g_paddle_movement (process_input (holding_input SDL_SCANCODE_S 10) scenario_wall_hit)
     = \<lparr>vec_x = 0, vec_y = - 1, vec_z = 0\<rparr>"
  "g_paddle_movement (process_input (idle_input 10) scenario_wall_hit)
     = \<lparr>vec_x = 0, vec_y = 0, vec_z = 0\<rparr>"
  by (simp_all add: holding_input_def idle_input_def process_input_paddle_movement held_def
      holding_def no_keys_def scenario_wall_hit_fields)

lemma scenario_wall_hit_result:
  assumes e: "events inp = []" and t: "ticks_ms inp = 10"
    and pm: "g_paddle_movement (process_input inp scenario_wall_hit) = \<lparr>vec_x = 0, vec_y = m, vec_z = 0\<rparr>"
    and m: "m = - 1 \<or> m = 0 \<or> m = 1"
  shows "vec_y (g_ball_movement (frame inp scenario_wall_hit)) = - (if m = 0 then 1 else m)"
    and "vec_y (g_ball_position (frame inp scenario_wall_hit)) = 3.63"
proof -
  note f = scenario_wall_hit_frame [OF e t pm m]
  have r: "vec_y (g_ball_movement (resolve_collision
      (before_collision 10 (process_input inp scenario_wall_hit)))) = (if m = 0 then 1 else m)"
    using resolve_collision_left [OF f(5)] m by (auto simp add: pm f(6))
  show "vec_y (g_ball_movement (frame inp scenario_wall_hit)) = - (if m = 0 then 1 else m)"
    unfolding frame_def t update_ball_movement_y r by (simp add: f(1))
  show "vec_y (g_ball_position (frame inp scenario_wall_hit)) = 3.63"
    by (simp add: frame_def t update_ball_position f(1))
qed

lemma scenario_ai_wall_fields:
  "g_ball_position scenario_ai_wall = \<lparr>vec_x = 3.4, vec_y = 3.6, vec_z = 0\<rparr>"
  "g_ball_movement scenario_ai_wall = \<lparr>vec_x = 1, vec_y = 1, vec_z = 0\<rparr>"
  "g_paddle_position scenario_ai_wall = \<lparr>vec_x = - 4, vec_y = 0, vec_z = 0\<rparr>"
  "g_right_paddle_position scenario_ai_wall = \<lparr>vec_x = 4, vec_y = 3.4, vec_z = 0\<rparr>"
  "g_ball_speed scenario_ai_wall = 3"
  "g_paddle_speed scenario_ai_wall = 3"
  "g_previous_ticks scenario_ai_wall = 0"
  "right_paddle_swtich scenario_ai_wall = 1"
  "paddle_y_distance scenario_ai_wall = 3.15"
  "paddle_right_y_distance scenario_ai_wall = - 0.25"
  by (simp_all add: scenario_ai_wall_def scenario_ball_at_def initial_game_def)

lemma scenario_ai_wall_idle:
  "right_paddle_swtich (process_input (idle_input 10) scenario_ai_wall) = 1"
  "g_right_paddle_position (frame (idle_input 10) scenario_ai_wall) = \<lparr>vec_x = 4, vec_y = 3.43, vec_z = 0\<rparr>"
  "g_ball_position (frame (idle_input 10) scenario_ai_wall) = \<lparr>vec_x = 3.43, vec_y = 3.63, vec_z = 0\<rparr>"
  "collision_branch (before_collision 10 (process_input (idle_input 10) scenario_ai_wall)) = RIGHT_PADDLE"
  "vec_y (g_ball_movement (frame (idle_input 10) scenario_ai_wall)) = - 1"
proof -
  have t: "ticks_ms (idle_input 10) = 10" "events (idle_input 10) = []"
    by (simp_all add: idle_input_def)
  show s: "right_paddle_swtich (process_input (idle_input 10) scenario_ai_wall) = 1"
    by (simp add: process_input_from_events t scenario_ai_wall_fields)
  have bm: "g_ball_movement (process_input (idle_input 10) scenario_ai_wall)
      = \<lparr>vec_x = 1, vec_y = 1, vec_z = 0\<rparr>"
    by (simp add: process_input_from_events t scenario_ai_wall_fields)
  have pm: "g_paddle_movement (process_input (idle_input 10) scenario_ai_wall)
      = \<lparr>vec_x = 0, vec_y = 0, vec_z = 0\<rparr>"
    by (simp add: process_input_paddle_movement held_def idle_input_def no_keys_def)
  have rm: "g_right_paddle_movement (process_input (idle_input 10) scenario_ai_wall)
      = \<lparr>vec_x = 0, vec_y = 0, vec_z = 0\<rparr>"
    by (simp add: process_input_right_paddle_movement held_def idle_input_def no_keys_def)
  have bp: "g_ball_position (before_collision 10 (process_input (idle_input 10) scenario_ai_wall))
      = \<lparr>vec_x = 3.43, vec_y = 3.63, vec_z = 0\<rparr>"
    by (simp add: before_collision_ball_position bm process_input_kept scenario_ai_wall_fields
        delta_time_def seconds_def MILLISECONDS_IN_SECOND_def vec3_add_def vec3_scale_def)
  have pp: "g_paddle_position (before_collision 10 (process_input (idle_input 10) scenario_ai_wall))
      = \<lparr>vec_x = - 4, vec_y = 0, vec_z = 0\<rparr>"
    by (simp add: before_collision_paddle_position pm process_input_kept scenario_ai_wall_fields
        vec3_add_def vec3_scale_def)
  have rp: "g_right_paddle_position (before_collision 10 (process_input (idle_input 10) scenario_ai_wall))
      = \<lparr>vec_x = 4, vec_y = 3.43, vec_z = 0\<rparr>"
    by (simp add: phase_defs s bm process_input_kept scenario_ai_wall_fields
        delta_time_def seconds_def MILLISECONDS_IN_SECOND_def vec3_add_def vec3_scale_def)
  show "g_right_paddle_position (frame (idle_input 10) scenario_ai_wall) = \<lparr>vec_x = 4, vec_y = 3.43, vec_z = 0\<rparr>"
    by (simp add: frame_def t update_right_paddle_position rp)
  show "g_ball_position (frame (idle_input 10) scenario_ai_wall) = \<lparr>vec_x = 3.43, vec_y = 3.63, vec_z = 0\<rparr>"
    by (simp add: frame_def t update_ball_position bp)
  show b: "collision_branch (before_collision 10 (process_input (idle_input 10) scenario_ai_wall)) = RIGHT_PADDLE"
    by (simp add: collision_branch_def before_collision_distances bp pp rp)
  have r: "vec_y (g_ball_movement (resolve_collision
      (before_collision 10 (process_input (idle_input 10) scenario_ai_wall)))) = 1"
    using resolve_collision_right [OF b] by (simp add: rm bm)
  show "vec_y (g_ball_movement (frame (idle_input 10) scenario_ai_wall)) = - 1"
    unfolding frame_def t update_ball_movement_y r by (simp add: bp)
qed

section \<open>The paddle-collision branches\<close>

text \<open>
  C2, as stated, at the upper bound. The ball reaches the left paddle with its y-position
  above 3.5. With the paddle moving up the step ends with the ball's y-direction \<open>-1\<close>,
  not the paddle's \<open>+1\<close>; with the paddle at rest the step changes the ball's y-direction
  from \<open>+1\<close> to \<open>-1\<close>. In both cases the collision branch is followed, in the same step,
  by the inversion at the vertical bound.
\<close>

theorem paddle_hit_at_wall_counterexample:
  "paddle_ball_x_distance (before_collision 10
      (process_input (holding_input SDL_SCANCODE_W 10) scenario_wall_hit)) \<le> 0
   \<and> paddle_ball_y_distance (before_collision 10
      (process_input (holding_input SDL_SCANCODE_W 10) scenario_wall_hit)) \<le> 0
   \<and> vec_y (g_paddle_movement (process_input (holding_input SDL_SCANCODE_W 10) scenario_wall_hit)) = 1
   \<and> vec_y (g_ball_movement (update 10
        (process_input (holding_input SDL_SCANCODE_W 10) scenario_wall_hit))) = - 1
   \<and> paddle_ball_x_distance (before_collision 10
      (process_input (idle_input 10) scenario_wall_hit)) \<le> 0
   \<and> paddle_ball_y_distance (before_collision 10
      (process_input (idle_input 10) scenario_wall_hit)) \<le> 0
   \<and> vec_y (g_paddle_movement (process_input (idle_input 10) scenario_wall_hit)) = 0
   \<and> vec_y (g_ball_movement (process_input (idle_input 10) scenario_wall_hit)) = 1
   \<and> vec_y (g_ball_movement (update 10 (process_input (idle_input 10) scenario_wall_hit))) = - 1"
proof -
  note k = scenario_wall_hit_keys
  have w: "vec_y (g_ball_movement (update 10
        (process_input (holding_input SDL_SCANCODE_W 10) scenario_wall_hit))) = - 1"
    using scenario_wall_hit_result(1) [OF k(1) k(2) k(5)] by (simp add: frame_def k)
  have i: "vec_y (g_ball_movement (update 10 (process_input (idle_input 10) scenario_wall_hit))) = - 1"
    using scenario_wall_hit_result(1) [OF k(3) k(4) k(7)] by (simp add: frame_def k)
  show ?thesis
    using scenario_wall_hit_frame [OF k(1) k(2) k(5)] scenario_wall_hit_frame [OF k(3) k(4) k(7)] w i
    by (simp add: k)
qed

text \<open>
  C2, amended. When the left-paddle test holds in the state reached after integration and
  the distance calculations (both gaps to the left paddle at most 0), \<open>update\<close> leaves the
  ball with x-direction \<open>+1\<close> and its speed multiplied by 1.015; the collision branch sets
  the ball's y-direction to the sign of the left paddle's movement when that is not zero
  and leaves it as it was otherwise; and the y-direction that \<open>update\<close> returns is that
  direction when the ball's y-position is strictly between \<open>-3.5\<close> and 3.5, and its
  negation when the y-position is at least 3.5 or at most \<open>-3.5\<close>. The right-paddle
  branch, entered when the left test fails and the right test holds, is the mirror with
  x-direction \<open>-1\<close> and the right paddle's movement.
\<close>

theorem paddle_collision_effect:
  "(paddle_ball_x_distance (before_collision t s) \<le> 0
      \<and> paddle_ball_y_distance (before_collision t s) \<le> 0 \<longrightarrow>
      vec_x (g_ball_movement (update t s)) = 1
      \<and> g_ball_speed (update t s) = g_ball_speed s * 1.015
      \<and> vec_y (g_ball_movement (resolve_collision (before_collision t s))) =
          (if vec_y (g_paddle_movement s) = 0 then vec_y (g_ball_movement s)
           else sgn (vec_y (g_paddle_movement s)))
      \<and> vec_y (g_ball_movement (update t s)) =
          (if vec_y (g_ball_position (update t s)) \<ge> 3.5
              \<or> vec_y (g_ball_position (update t s)) \<le> - 3.5
           then - (if vec_y (g_paddle_movement s) = 0 then vec_y (g_ball_movement s)
                   else sgn (vec_y (g_paddle_movement s)))
           else (if vec_y (g_paddle_movement s) = 0 then vec_y (g_ball_movement s)
                 else sgn (vec_y (g_paddle_movement s)))))
   \<and> (\<not> (paddle_ball_x_distance (before_collision t s) \<le> 0
          \<and> paddle_ball_y_distance (before_collision t s) \<le> 0)
      \<and> right_paddle_ball_x_distance (before_collision t s) \<le> 0
      \<and> right_paddle_ball_y_distance (before_collision t s) \<le> 0 \<longrightarrow>
      vec_x (g_ball_movement (update t s)) = - 1
      \<and> g_ball_speed (update t s) = g_ball_speed s * 1.015
      \<and> vec_y (g_ball_movement (resolve_collision (before_collision t s))) =
          (if vec_y (g_right_paddle_movement s) = 0 then vec_y (g_ball_movement s)
           else sgn (vec_y (g_right_paddle_movement s)))
      \<and> vec_y (g_ball_movement (update t s)) =
          (if vec_y (g_ball_position (update t s)) \<ge> 3.5
              \<or> vec_y (g_ball_position (update t s)) \<le> - 3.5
           then - (if vec_y (g_right_paddle_movement s) = 0 then vec_y (g_ball_movement s)
                   else sgn (vec_y (g_right_paddle_movement s)))
           else (if vec_y (g_right_paddle_movement s) = 0 then vec_y (g_ball_movement s)
                 else sgn (vec_y (g_right_paddle_movement s)))))"
proof (intro conjI impI)
  assume c: "paddle_ball_x_distance (before_collision t s) \<le> 0
      \<and> paddle_ball_y_distance (before_collision t s) \<le> 0"
  then have b: "collision_branch (before_collision t s) = LEFT_PADDLE"
    by (simp add: collision_branch_def)
  from resolve_collision_left [OF b]
  show "vec_x (g_ball_movement (update t s)) = 1"
    and "g_ball_speed (update t s) = g_ball_speed s * 1.015"
    and y: "vec_y (g_ball_movement (resolve_collision (before_collision t s))) =
          (if vec_y (g_paddle_movement s) = 0 then vec_y (g_ball_movement s)
           else sgn (vec_y (g_paddle_movement s)))"
    by (simp_all add: update_ball_movement_x update_ball_speed sgn_real_def)
  show "vec_y (g_ball_movement (update t s)) =
          (if vec_y (g_ball_position (update t s)) \<ge> 3.5
              \<or> vec_y (g_ball_position (update t s)) \<le> - 3.5
           then - (if vec_y (g_paddle_movement s) = 0 then vec_y (g_ball_movement s)
                   else sgn (vec_y (g_paddle_movement s)))
           else (if vec_y (g_paddle_movement s) = 0 then vec_y (g_ball_movement s)
                 else sgn (vec_y (g_paddle_movement s))))"
    unfolding update_ball_movement_y update_ball_position y by simp
next
  assume c: "\<not> (paddle_ball_x_distance (before_collision t s) \<le> 0
          \<and> paddle_ball_y_distance (before_collision t s) \<le> 0)
      \<and> right_paddle_ball_x_distance (before_collision t s) \<le> 0
      \<and> right_paddle_ball_y_distance (before_collision t s) \<le> 0"
  then have b: "collision_branch (before_collision t s) = RIGHT_PADDLE"
    by (simp add: collision_branch_def)
  from resolve_collision_right [OF b]
  show "vec_x (g_ball_movement (update t s)) = - 1"
    and "g_ball_speed (update t s) = g_ball_speed s * 1.015"
    and y: "vec_y (g_ball_movement (resolve_collision (before_collision t s))) =
          (if vec_y (g_right_paddle_movement s) = 0 then vec_y (g_ball_movement s)
           else sgn (vec_y (g_right_paddle_movement s)))"
    by (simp_all add: update_ball_movement_x update_ball_speed sgn_real_def)
  show "vec_y (g_ball_movement (update t s)) =
          (if vec_y (g_ball_position (update t s)) \<ge> 3.5
              \<or> vec_y (g_ball_position (update t s)) \<le> - 3.5
           then - (if vec_y (g_right_paddle_movement s) = 0 then vec_y (g_ball_movement s)
                   else sgn (vec_y (g_right_paddle_movement s)))
           else (if vec_y (g_right_paddle_movement s) = 0 then vec_y (g_ball_movement s)
                 else sgn (vec_y (g_right_paddle_movement s))))"
    unfolding update_ball_movement_y update_ball_position y by simp
qed

theorem paddle_collision_effect_witness:
  "paddle_ball_x_distance (before_collision 10 scenario_left_hit) \<le> 0
   \<and> paddle_ball_y_distance (before_collision 10 scenario_left_hit) \<le> 0
   \<and> g_ball_movement scenario_left_hit = \<lparr>vec_x = - 1, vec_y = 1, vec_z = 0\<rparr>
   \<and> g_ball_movement (update 10 scenario_left_hit) = \<lparr>vec_x = 1, vec_y = - 1, vec_z = 0\<rparr>
   \<and> g_ball_speed (update 10 scenario_left_hit) = 3.045
   \<and> \<not> (paddle_ball_x_distance (before_collision 10 scenario_right_hit) \<le> 0
          \<and> paddle_ball_y_distance (before_collision 10 scenario_right_hit) \<le> 0)
   \<and> right_paddle_ball_x_distance (before_collision 10 scenario_right_hit) \<le> 0
   \<and> right_paddle_ball_y_distance (before_collision 10 scenario_right_hit) \<le> 0
   \<and> g_ball_movement scenario_right_hit = \<lparr>vec_x = 1, vec_y = - 1, vec_z = 0\<rparr>
   \<and> g_ball_movement (update 10 scenario_right_hit) = \<lparr>vec_x = - 1, vec_y = 1, vec_z = 0\<rparr>
   \<and> g_ball_speed (update 10 scenario_right_hit) = 3.045"
proof -
  have l: "g_ball_movement scenario_left_hit = \<lparr>vec_x = - 1, vec_y = 1, vec_z = 0\<rparr>"
    "g_paddle_movement scenario_left_hit = \<lparr>vec_x = 0, vec_y = - 1, vec_z = 0\<rparr>"
    "g_ball_speed scenario_left_hit = 3"
    by (simp_all add: scenario_left_hit_def scenario_ball_at_def initial_game_def)
  have r: "g_ball_movement scenario_right_hit = \<lparr>vec_x = 1, vec_y = - 1, vec_z = 0\<rparr>"
    "g_right_paddle_movement scenario_right_hit = \<lparr>vec_x = 0, vec_y = 1, vec_z = 0\<rparr>"
    "g_ball_speed scenario_right_hit = 3"
    by (simp_all add: scenario_right_hit_def scenario_ball_at_def initial_game_def)
  have z: "vec_z (g_ball_movement (update 10 scenario_left_hit)) = 0"
    "vec_z (g_ball_movement (update 10 scenario_right_hit)) = 0"
    by (simp_all add: update_def vertical_bounce_def resolve_collision_def deflect_def l r
        split: branch.split)
  have e: "\<And>v :: vec3. v = \<lparr>vec_x = vec_x v, vec_y = vec_y v, vec_z = vec_z v\<rparr>"
    by simp
  show ?thesis
    using paddle_collision_effect [of 10 scenario_left_hit]
      paddle_collision_effect [of 10 scenario_right_hit]
    apply (simp add: scenario_left_hit_state scenario_right_hit_state l r update_ball_position)
    apply (subst e [of "g_ball_movement (update 10 scenario_left_hit)"])
    apply (subst e [of "g_ball_movement (update 10 scenario_right_hit)"])
    apply (simp add: z)
    done
qed

text \<open>
  C3, as stated, at its own input. With the left paddle at \<open>(-4, 0)\<close> and the ball at
  \<open>(-3.65, 0)\<close> the horizontal distance computed by \<open>update\<close> is
  \<open>0.35 - (0.25 + 0.8) / 2 = -0.175\<close>: the sum of the two scales is halved once, and
  the left-paddle branch is entered.
\<close>

theorem left_paddle_scenario_counterexample:
  "paddle_ball_x_distance (before_collision 0 (scenario_ball_at (- 3.65) 0 (- 1) 0)) = - 0.175
   \<and> paddle_ball_y_distance (before_collision 0 (scenario_ball_at (- 3.65) 0 (- 1) 0)) \<le> 0
   \<and> collision_branch (before_collision 0 (scenario_ball_at (- 3.65) 0 (- 1) 0)) = LEFT_PADDLE
   \<and> vec_x (g_ball_movement (update 0 (scenario_ball_at (- 3.65) 0 (- 1) 0))) = 1"
  by (simp add: scenario_defs)

text \<open>
  C3, amended. With the left paddle at \<open>(-4, 0)\<close> and the ball at \<open>(-3.65, 0)\<close> or at
  \<open>(-3.6, 0)\<close> when the collision test is made, the horizontal distance is \<open>-0.175\<close>,
  respectively \<open>-0.125\<close>, the left-paddle branch is entered, the ball's x-direction
  becomes \<open>+1\<close> and its speed is multiplied by 1.015.
\<close>

theorem left_paddle_scenario:
  "g_paddle_position (before_collision t s) = \<lparr>vec_x = - 4, vec_y = 0, vec_z = 0\<rparr>
   \<and> vec_y (g_ball_position (before_collision t s)) = 0
   \<and> (vec_x (g_ball_position (before_collision t s)) = - 3.65
       \<or> vec_x (g_ball_position (before_collision t s)) = - 3.6)
   \<longrightarrow> paddle_ball_x_distance (before_collision t s) \<le> 0
       \<and> paddle_ball_x_distance (before_collision t s) =
           (if vec_x (g_ball_position (before_collision t s)) = - 3.65 then - 0.175 else - 0.125)
       \<and> collision_branch (before_collision t s) = LEFT_PADDLE
       \<and> vec_x (g_ball_movement (update t s)) = 1
       \<and> g_ball_speed (update t s) = g_ball_speed s * 1.015"
proof (intro impI)
  assume h: "g_paddle_position (before_collision t s) = \<lparr>vec_x = - 4, vec_y = 0, vec_z = 0\<rparr>
   \<and> vec_y (g_ball_position (before_collision t s)) = 0
   \<and> (vec_x (g_ball_position (before_collision t s)) = - 3.65
       \<or> vec_x (g_ball_position (before_collision t s)) = - 3.6)"
  have dx: "paddle_ball_x_distance (before_collision t s) =
           (if vec_x (g_ball_position (before_collision t s)) = - 3.65 then - 0.175 else - 0.125)"
    using h by (auto simp add: before_collision_distances(3))
  have dy: "paddle_ball_y_distance (before_collision t s) = - 0.725"
    using h by (simp add: before_collision_distances(4))
  have b: "collision_branch (before_collision t s) = LEFT_PADDLE"
    using dx dy by (simp add: collision_branch_def)
  show "paddle_ball_x_distance (before_collision t s) \<le> 0
       \<and> paddle_ball_x_distance (before_collision t s) =
           (if vec_x (g_ball_position (before_collision t s)) = - 3.65 then - 0.175 else - 0.125)
       \<and> collision_branch (before_collision t s) = LEFT_PADDLE
       \<and> vec_x (g_ball_movement (update t s)) = 1
       \<and> g_ball_speed (update t s) = g_ball_speed s * 1.015"
    using dx b resolve_collision_left [OF b]
    by (simp add: update_ball_movement_x update_ball_speed)
qed

theorem left_paddle_scenario_witness:
  "g_paddle_position (before_collision 0 (scenario_ball_at (- 3.6) 0 (- 1) 0))
      = \<lparr>vec_x = - 4, vec_y = 0, vec_z = 0\<rparr>
   \<and> g_ball_position (before_collision 0 (scenario_ball_at (- 3.6) 0 (- 1) 0))
      = \<lparr>vec_x = - 3.6, vec_y = 0, vec_z = 0\<rparr>
   \<and> vec_x (g_ball_movement (scenario_ball_at (- 3.6) 0 (- 1) 0)) = - 1
   \<and> vec_x (g_ball_movement (update 0 (scenario_ball_at (- 3.6) 0 (- 1) 0))) = 1
   \<and> g_ball_speed (update 0 (scenario_ball_at (- 3.6) 0 (- 1) 0)) = 3.045"
proof -
  have p: "g_paddle_position (before_collision 0 (scenario_ball_at (- 3.6) 0 (- 1) 0))
      = \<lparr>vec_x = - 4, vec_y = 0, vec_z = 0\<rparr>"
    by (simp add: scenario_defs)
  have q: "g_ball_position (before_collision 0 (scenario_ball_at (- 3.6) 0 (- 1) 0))
      = \<lparr>vec_x = - 3.6, vec_y = 0, vec_z = 0\<rparr>"
    by (simp add: scenario_defs)
  have r: "g_ball_speed (scenario_ball_at (- 3.6) 0 (- 1) 0) = 3"
    "vec_x (g_ball_movement (scenario_ball_at (- 3.6) 0 (- 1) 0)) = - 1"
    by (simp_all add: scenario_ball_at_def initial_game_def)
  show ?thesis
    using left_paddle_scenario [of 0 "scenario_ball_at (- 3.6) 0 (- 1) 0"] p q r by simp
qed

text \<open>
  C4, as stated, at the initial state. With the ball at the centre of the court neither
  collision test holds, so a step enters neither branch and the collision code changes
  nothing.
\<close>

theorem no_branch_counterexample:
  "collision_branch (before_collision 0 initial_game) = NO_PADDLE
   \<and> resolve_collision (before_collision 0 initial_game) = before_collision 0 initial_game"
proof -
  have "collision_branch (before_collision 0 initial_game) = NO_PADDLE"
    by (simp add: eval_defs)
  then show ?thesis by (simp add: resolve_collision_none)
qed

text \<open>
  C4, amended. In every step at most one of the two collision branches is entered: the
  left one exactly when the left test holds, the right one exactly when the left test
  fails and the right test holds, and none when both tests fail, in which case the
  collision code leaves the state as it is. When both tests hold in the same frame only
  the left-paddle branch applies: the ball's x-direction is \<open>+1\<close>, its speed is multiplied
  by 1.015 once, and the y-direction comes from the left paddle's movement.
\<close>

theorem collision_branches_exclusive:
  "(collision_branch (before_collision t s) = LEFT_PADDLE \<longleftrightarrow>
      paddle_ball_x_distance (before_collision t s) \<le> 0
      \<and> paddle_ball_y_distance (before_collision t s) \<le> 0)
   \<and> (collision_branch (before_collision t s) = RIGHT_PADDLE \<longleftrightarrow>
      \<not> (paddle_ball_x_distance (before_collision t s) \<le> 0
          \<and> paddle_ball_y_distance (before_collision t s) \<le> 0)
      \<and> right_paddle_ball_x_distance (before_collision t s) \<le> 0
      \<and> right_paddle_ball_y_distance (before_collision t s) \<le> 0)
   \<and> (collision_branch (before_collision t s) = NO_PADDLE \<longleftrightarrow>
      \<not> (paddle_ball_x_distance (before_collision t s) \<le> 0
          \<and> paddle_ball_y_distance (before_collision t s) \<le> 0)
      \<and> \<not> (right_paddle_ball_x_distance (before_collision t s) \<le> 0
          \<and> right_paddle_ball_y_distance (before_collision t s) \<le> 0))
   \<and> (collision_branch (before_collision t s) = NO_PADDLE \<longrightarrow>
      resolve_collision (before_collision t s) = before_collision t s)
   \<and> (paddle_ball_x_distance (before_collision t s) \<le> 0
      \<and> paddle_ball_y_distance (before_collision t s) \<le> 0
      \<and> right_paddle_ball_x_distance (before_collision t s) \<le> 0
      \<and> right_paddle_ball_y_distance (before_collision t s) \<le> 0 \<longrightarrow>
      resolve_collision (before_collision t s) =
        deflect (vec_y (g_paddle_movement s))
          ((before_collision t s)\<lparr>g_ball_movement := (g_ball_movement s)\<lparr>vec_x := 1\<rparr>,
             g_ball_speed := g_ball_speed s * 1.015\<rparr>)
      \<and> vec_x (g_ball_movement (update t s)) = 1
      \<and> g_ball_speed (update t s) = g_ball_speed s * 1.015)"
proof (intro conjI impI)
  show "collision_branch (before_collision t s) = LEFT_PADDLE \<longleftrightarrow>
      paddle_ball_x_distance (before_collision t s) \<le> 0
      \<and> paddle_ball_y_distance (before_collision t s) \<le> 0"
    by (simp add: collision_branch_def)
  show "collision_branch (before_collision t s) = RIGHT_PADDLE \<longleftrightarrow>
      \<not> (paddle_ball_x_distance (before_collision t s) \<le> 0
          \<and> paddle_ball_y_distance (before_collision t s) \<le> 0)
      \<and> right_paddle_ball_x_distance (before_collision t s) \<le> 0
      \<and> right_paddle_ball_y_distance (before_collision t s) \<le> 0"
    by (simp add: collision_branch_def)
  show "collision_branch (before_collision t s) = NO_PADDLE \<longleftrightarrow>
      \<not> (paddle_ball_x_distance (before_collision t s) \<le> 0
          \<and> paddle_ball_y_distance (before_collision t s) \<le> 0)
      \<and> \<not> (right_paddle_ball_x_distance (before_collision t s) \<le> 0
          \<and> right_paddle_ball_y_distance (before_collision t s) \<le> 0)"
    by (simp add: collision_branch_def)
  show "resolve_collision (before_collision t s) = before_collision t s"
    if "collision_branch (before_collision t s) = NO_PADDLE"
    using that by (rule resolve_collision_none)
next
  assume both: "paddle_ball_x_distance (before_collision t s) \<le> 0
      \<and> paddle_ball_y_distance (before_collision t s) \<le> 0
      \<and> right_paddle_ball_x_distance (before_collision t s) \<le> 0
      \<and> right_paddle_ball_y_distance (before_collision t s) \<le> 0"
  then have b: "collision_branch (before_collision t s) = LEFT_PADDLE"
    by (simp add: collision_branch_def)
  then show "resolve_collision (before_collision t s) =
        deflect (vec_y (g_paddle_movement s))
          ((before_collision t s)\<lparr>g_ball_movement := (g_ball_movement s)\<lparr>vec_x := 1\<rparr>,
             g_ball_speed := g_ball_speed s * 1.015\<rparr>)"
    by (simp add: resolve_collision_def)
  from resolve_collision_left [OF b]
  show "vec_x (g_ball_movement (update t s)) = 1"
    and "g_ball_speed (update t s) = g_ball_speed s * 1.015"
    by (simp_all add: update_ball_movement_x update_ball_speed)
qed

theorem collision_branches_exclusive_witness:
  "paddle_ball_x_distance (before_collision 0 scenario_both_paddles) \<le> 0
   \<and> paddle_ball_y_distance (before_collision 0 scenario_both_paddles) \<le> 0
   \<and> right_paddle_ball_x_distance (before_collision 0 scenario_both_paddles) \<le> 0
   \<and> right_paddle_ball_y_distance (before_collision 0 scenario_both_paddles) \<le> 0
   \<and> collision_branch (before_collision 0 scenario_both_paddles) = LEFT_PADDLE
   \<and> g_ball_speed scenario_both_paddles = 3
   \<and> g_ball_speed (update 0 scenario_both_paddles) = 3.045
   \<and> vec_x (g_ball_movement (update 0 scenario_both_paddles)) = 1
   \<and> vec_y (g_ball_movement (update 0 scenario_both_paddles)) = 1"
proof -
  have f: "g_ball_speed scenario_both_paddles = 3"
    "g_paddle_movement scenario_both_paddles = \<lparr>vec_x = 0, vec_y = 1, vec_z = 0\<rparr>"
    by (simp_all add: scenario_both_paddles_def scenario_ball_at_def initial_game_def)
  have y: "vec_y (g_ball_position (before_collision 0 scenario_both_paddles)) = 0"
    by (simp add: scenario_both_paddles_def scenario_defs)
  show ?thesis
    using collision_branches_exclusive [of 0 scenario_both_paddles]
    by (simp add: scenario_both_paddles_state f y update_ball_movement_y deflect_def)
qed

section \<open>The vertical bounce\<close>

text \<open>
  C5, as stated, at a paddle hit. The ball is at \<open>y = 3.6\<close> with y-direction \<open>+1\<close> and
  reaches the left paddle while the down key is held: the collision branch sets the
  y-direction to \<open>-1\<close>, the inversion at the bound turns it back, and the frame ends with
  y-direction \<open>+1\<close>.
\<close>

theorem bounce_after_paddle_hit_counterexample:
  "vec_y (g_ball_position scenario_wall_hit) = 3.6
   \<and> vec_y (g_ball_movement scenario_wall_hit) = 1
   \<and> vec_y (g_ball_position (frame (holding_input SDL_SCANCODE_S 10) scenario_wall_hit)) \<ge> 3.5
   \<and> vec_y (g_ball_movement (frame (holding_input SDL_SCANCODE_S 10) scenario_wall_hit)) = 1"
proof -
  note k = scenario_wall_hit_keys
  show ?thesis
    using scenario_wall_hit_result [OF k(1) k(2) k(6)]
    by (simp add: scenario_wall_hit_fields)
qed

text \<open>
  C5, amended. When, after integration, the ball's y-position is at least 3.5 or at most
  \<open>-3.5\<close>, \<open>update\<close> returns the negation of the y-direction that the collision code of
  the same step produces: the negation of the ball's previous y-direction when no paddle
  branch is entered or the paddle hit is at rest, and the negation of the sign of the hit
  paddle's movement otherwise. The ball's position after the step is the integrated
  position, with no clamping to the bound. A ball at \<open>y = 3.6\<close> with y-direction \<open>+1\<close>, in
  a step that does not move it backwards, has y-direction \<open>-1\<close> after the step unless it
  is hit in that step by a paddle moving down, in which case it has y-direction \<open>+1\<close>.
\<close>

theorem vertical_bounce_inverts:
  "(vec_y (g_ball_position (update t s)) \<ge> 3.5
      \<or> vec_y (g_ball_position (update t s)) \<le> - 3.5 \<longrightarrow>
      (collision_branch (before_collision t s) = NO_PADDLE \<longrightarrow>
         vec_y (g_ball_movement (update t s)) = - vec_y (g_ball_movement s))
      \<and> (collision_branch (before_collision t s) = LEFT_PADDLE \<longrightarrow>
         vec_y (g_ball_movement (update t s)) =
           - (if vec_y (g_paddle_movement s) = 0 then vec_y (g_ball_movement s)
              else sgn (vec_y (g_paddle_movement s))))
      \<and> (collision_branch (before_collision t s) = RIGHT_PADDLE \<longrightarrow>
         vec_y (g_ball_movement (update t s)) =
           - (if vec_y (g_right_paddle_movement s) = 0 then vec_y (g_ball_movement s)
              else sgn (vec_y (g_right_paddle_movement s)))))
   \<and> g_ball_position (update t s) =
        vec3_add (g_ball_position s)
          (vec3_scale (vec3_scale (g_ball_movement s) (g_ball_speed s)) (delta_time t s))
   \<and> (vec_y (g_ball_position s) = 3.6 \<and> vec_y (g_ball_movement s) = 1
      \<and> 0 \<le> g_ball_speed s * delta_time t s \<longrightarrow>
      ((collision_branch (before_collision t s) = LEFT_PADDLE \<longrightarrow>
           0 \<le> vec_y (g_paddle_movement s))
        \<and> (collision_branch (before_collision t s) = RIGHT_PADDLE \<longrightarrow>
           0 \<le> vec_y (g_right_paddle_movement s)) \<longrightarrow>
        vec_y (g_ball_movement (update t s)) = - 1)
      \<and> (collision_branch (before_collision t s) = LEFT_PADDLE
            \<and> vec_y (g_paddle_movement s) < 0
          \<or> collision_branch (before_collision t s) = RIGHT_PADDLE
            \<and> vec_y (g_right_paddle_movement s) < 0 \<longrightarrow>
        vec_y (g_ball_movement (update t s)) = 1))"
proof (intro conjI impI)
  assume b: "vec_y (g_ball_position (update t s)) \<ge> 3.5
      \<or> vec_y (g_ball_position (update t s)) \<le> - 3.5"
  then have i: "vec_y (g_ball_movement (update t s)) =
        - vec_y (g_ball_movement (resolve_collision (before_collision t s)))"
    by (simp add: update_ball_movement_y update_ball_position)
  show "vec_y (g_ball_movement (update t s)) = - vec_y (g_ball_movement s)"
    if "collision_branch (before_collision t s) = NO_PADDLE"
    using i that by (simp add: resolve_collision_none)
  show "vec_y (g_ball_movement (update t s)) =
           - (if vec_y (g_paddle_movement s) = 0 then vec_y (g_ball_movement s)
              else sgn (vec_y (g_paddle_movement s)))"
    if l: "collision_branch (before_collision t s) = LEFT_PADDLE"
    using i resolve_collision_left [OF l] by (simp add: sgn_real_def)
  show "vec_y (g_ball_movement (update t s)) =
           - (if vec_y (g_right_paddle_movement s) = 0 then vec_y (g_ball_movement s)
              else sgn (vec_y (g_right_paddle_movement s)))"
    if r: "collision_branch (before_collision t s) = RIGHT_PADDLE"
    using i resolve_collision_right [OF r] by (simp add: sgn_real_def)
next
  show "g_ball_position (update t s) =
        vec3_add (g_ball_position s)
          (vec3_scale (vec3_scale (g_ball_movement s) (g_ball_speed s)) (delta_time t s))"
    by (simp add: update_ball_position before_collision_ball_position)
next
  assume h: "vec_y (g_ball_position s) = 3.6 \<and> vec_y (g_ball_movement s) = 1
      \<and> 0 \<le> g_ball_speed s * delta_time t s"
    and n: "(collision_branch (before_collision t s) = LEFT_PADDLE \<longrightarrow>
           0 \<le> vec_y (g_paddle_movement s))
        \<and> (collision_branch (before_collision t s) = RIGHT_PADDLE \<longrightarrow>
           0 \<le> vec_y (g_right_paddle_movement s))"
  have "vec_y (g_ball_position (before_collision t s)) = 3.6 + g_ball_speed s * delta_time t s"
    using h by (simp add: before_collision_ball_position vec3_add_def vec3_scale_def)
  then have over: "vec_y (g_ball_position (before_collision t s)) \<ge> 3.5"
    using h by simp
  have "vec_y (g_ball_movement (resolve_collision (before_collision t s))) = 1"
  proof (cases "collision_branch (before_collision t s)")
    case LEFT_PADDLE
    then show ?thesis using h n resolve_collision_left [OF LEFT_PADDLE] by auto
  next
    case RIGHT_PADDLE
    then show ?thesis using h n resolve_collision_right [OF RIGHT_PADDLE] by auto
  next
    case NO_PADDLE
    then show ?thesis using h by (simp add: resolve_collision_none)
  qed
  then show "vec_y (g_ball_movement (update t s)) = - 1"
    using over by (simp add: update_ball_movement_y)
next
  assume h: "vec_y (g_ball_position s) = 3.6 \<and> vec_y (g_ball_movement s) = 1
      \<and> 0 \<le> g_ball_speed s * delta_time t s"
    and d: "collision_branch (before_collision t s) = LEFT_PADDLE
            \<and> vec_y (g_paddle_movement s) < 0
          \<or> collision_branch (before_collision t s) = RIGHT_PADDLE
            \<and> vec_y (g_right_paddle_movement s) < 0"
  have "vec_y (g_ball_position (before_collision t s)) = 3.6 + g_ball_speed s * delta_time t s"
    using h by (simp add: before_collision_ball_position vec3_add_def vec3_scale_def)
  then have over: "vec_y (g_ball_position (before_collision t s)) \<ge> 3.5"
    using h by simp
  have "vec_y (g_ball_movement (resolve_collision (before_collision t s))) = - 1"
    using d
  proof
    assume l: "collision_branch (before_collision t s) = LEFT_PADDLE
            \<and> vec_y (g_paddle_movement s) < 0"
    then have b: "collision_branch (before_collision t s) = LEFT_PADDLE" by simp
    show ?thesis using l resolve_collision_left [OF b] by simp
  next
    assume r: "collision_branch (before_collision t s) = RIGHT_PADDLE
            \<and> vec_y (g_right_paddle_movement s) < 0"
    then have b: "collision_branch (before_collision t s) = RIGHT_PADDLE" by simp
    show ?thesis using r resolve_collision_right [OF b] by simp
  qed
  then show "vec_y (g_ball_movement (update t s)) = 1"
    using over by (simp add: update_ball_movement_y)
qed

theorem vertical_bounce_inverts_witness:
  "vec_y (g_ball_position scenario_bounce) = 3.6
   \<and> vec_y (g_ball_movement scenario_bounce) = 1
   \<and> 0 \<le> g_ball_speed scenario_bounce * delta_time 100 scenario_bounce
   \<and> collision_branch (before_collision 100 scenario_bounce) = NO_PADDLE
   \<and> vec_y (g_ball_position (update 100 scenario_bounce)) \<ge> 3.5
   \<and> vec_y (g_ball_movement (update 100 scenario_bounce)) = - 1
   \<and> g_ball_position (update 100 scenario_bounce) = \<lparr>vec_x = 0, vec_y = 3.9, vec_z = 0\<rparr>
   \<and> vec_y (g_ball_position (process_input (holding_input SDL_SCANCODE_S 10) scenario_wall_hit)) = 3.6
   \<and> vec_y (g_ball_movement (process_input (holding_input SDL_SCANCODE_S 10) scenario_wall_hit)) = 1
   \<and> collision_branch (before_collision 10
        (process_input (holding_input SDL_SCANCODE_S 10) scenario_wall_hit)) = LEFT_PADDLE
   \<and> vec_y (g_paddle_movement (process_input (holding_input SDL_SCANCODE_S 10) scenario_wall_hit)) < 0
   \<and> vec_y (g_ball_movement (update 10
        (process_input (holding_input SDL_SCANCODE_S 10) scenario_wall_hit))) = 1"
proof -
  have a: "vec_y (g_ball_position scenario_bounce) = 3.6"
    "vec_y (g_ball_movement scenario_bounce) = 1"
    "g_ball_speed scenario_bounce * delta_time 100 scenario_bounce = 0.3"
    by (simp_all add: scenario_bounce_def scenario_defs)
  have b: "collision_branch (before_collision 100 scenario_bounce) = NO_PADDLE"
    by (simp add: scenario_bounce_def scenario_defs)
  have c: "g_ball_position (before_collision 100 scenario_bounce)
        = \<lparr>vec_x = 0, vec_y = 3.9, vec_z = 0\<rparr>"
    by (simp add: scenario_bounce_def scenario_defs)
  have d: "vec3_add (g_ball_position scenario_bounce)
          (vec3_scale (vec3_scale (g_ball_movement scenario_bounce)
             (g_ball_speed scenario_bounce)) (delta_time 100 scenario_bounce))
        = \<lparr>vec_x = 0, vec_y = 3.9, vec_z = 0\<rparr>"
    by (simp add: scenario_bounce_def scenario_defs)
  note k = scenario_wall_hit_keys
  note f = scenario_wall_hit_frame [OF k(1) k(2) k(6)]
  have g: "vec_y (g_ball_position (process_input (holding_input SDL_SCANCODE_S 10) scenario_wall_hit)) = 3.6"
    "g_ball_speed (process_input (holding_input SDL_SCANCODE_S 10) scenario_wall_hit)
       * delta_time 10 (process_input (holding_input SDL_SCANCODE_S 10) scenario_wall_hit) = 0.03"
    by (simp_all add: process_input_kept scenario_wall_hit_fields delta_time_def seconds_def
        MILLISECONDS_IN_SECOND_def)
  have first: "vec_y (g_ball_movement (update 100 scenario_bounce)) = - 1
     \<and> g_ball_position (update 100 scenario_bounce) = \<lparr>vec_x = 0, vec_y = 3.9, vec_z = 0\<rparr>"
    using vertical_bounce_inverts [of 100 scenario_bounce]
    by (simp add: a b c d update_ball_position)
  have second: "vec_y (g_ball_movement (update 10
        (process_input (holding_input SDL_SCANCODE_S 10) scenario_wall_hit))) = 1"
    using vertical_bounce_inverts [of 10 "process_input (holding_input SDL_SCANCODE_S 10) scenario_wall_hit"]
    by (simp add: g f(5) f(6) k(6))
  show ?thesis
    using first second by (simp add: a b c g f(5) f(6) k(6) update_ball_position)
qed

section \<open>Termination\<close>

text \<open>
  C6. A step in which the integrated x-position of the ball is outside \<open>[-5, 5]\<close> ends
  with status \<open>TERMINATED\<close>, whatever the rest of the state; a ball at \<open>x = 5.2\<close> when the
  status is evaluated gives \<open>TERMINATED\<close>; and from status \<open>TERMINATED\<close> neither
  \<open>process_input\<close>, nor \<open>update\<close>, nor a whole frame, nor the main loop returns to
  \<open>RUNNING\<close>.
\<close>

theorem ball_exit_terminates:
  "(vec_x (g_ball_position (before_collision t s)) > 5
      \<or> vec_x (g_ball_position (before_collision t s)) < - 5
      \<longrightarrow> g_app_status (update t s) = TERMINATED)
   \<and> (vec_x (g_ball_position c) = 5.2 \<longrightarrow> g_app_status (termination_check c) = TERMINATED)
   \<and> (g_app_status r = TERMINATED \<longrightarrow>
        g_app_status (process_input inp r) = TERMINATED
        \<and> g_app_status (update t r) = TERMINATED
        \<and> g_app_status (frame inp r) = TERMINATED
        \<and> g_app_status (main_loop inps r) = TERMINATED)"
  by (auto simp add: update_def frame_def termination_check_status process_input_status
      poll_events_status_kept main_loop_terminated)

theorem ball_exit_terminates_witness:
  "g_app_status (scenario_ball_at 4.9 0 1 0) = RUNNING
   \<and> vec_x (g_ball_position (before_collision 100 (scenario_ball_at 4.9 0 1 0))) = 5.2
   \<and> vec_x (g_ball_position (before_collision 100 (scenario_ball_at 4.9 0 1 0))) > 5
   \<and> g_app_status (termination_check (before_collision 100 (scenario_ball_at 4.9 0 1 0))) = TERMINATED
   \<and> g_app_status (update 100 (scenario_ball_at 4.9 0 1 0)) = TERMINATED
   \<and> g_app_status (frame (idle_input 200) (update 100 (scenario_ball_at 4.9 0 1 0))) = TERMINATED
   \<and> g_app_status (main_loop [idle_input 200, idle_input 300] (update 100 (scenario_ball_at 4.9 0 1 0)))
        = TERMINATED"
proof -
  have p: "vec_x (g_ball_position (before_collision 100 (scenario_ball_at 4.9 0 1 0))) = 5.2"
    by (simp add: scenario_defs)
  have q: "g_app_status (scenario_ball_at 4.9 0 1 0) = RUNNING"
    by (simp add: scenario_ball_at_def initial_game_def)
  show ?thesis
    using ball_exit_terminates [where t = 100 and s = "scenario_ball_at 4.9 0 1 0"
        and c = "before_collision 100 (scenario_ball_at 4.9 0 1 0)"
        and r = "update 100 (scenario_ball_at 4.9 0 1 0)"
        and inp = "idle_input 200" and inps = "[idle_input 200, idle_input 300]"]
    by (simp add: p q)
qed

section \<open>Paddle movement\<close>

text \<open>
  C7. After \<open>process_input\<close> each paddle's movement vector is \<open>(0, -1, 0)\<close>, \<open>(0, 0, 0)\<close>
  or \<open>(0, 1, 0)\<close>. When the stored distance says that the paddle is at the upper bound
  (distance at most 0) the movement is never \<open>+1\<close>, and it is 0 unless the down key is
  held; when it says that the paddle is at the lower bound (distance at least 6.3) the
  movement is never \<open>-1\<close>, and it is 0 when the down key is held. The test reads the
  stored distance only: changing the paddle positions in the state does not change the
  movement, and the distance that \<open>process_input\<close> finds after an \<open>update\<close> is the one
  computed from the paddle position at the end of that \<open>update\<close>.
\<close>

theorem paddle_movement_clamped:
  "g_paddle_movement (process_input inp s) \<in>
      {\<lparr>vec_x = 0, vec_y = - 1, vec_z = 0\<rparr>, \<lparr>vec_x = 0, vec_y = 0, vec_z = 0\<rparr>,
       \<lparr>vec_x = 0, vec_y = 1, vec_z = 0\<rparr>}
   \<and> g_right_paddle_movement (process_input inp s) \<in>
      {\<lparr>vec_x = 0, vec_y = - 1, vec_z = 0\<rparr>, \<lparr>vec_x = 0, vec_y = 0, vec_z = 0\<rparr>,
       \<lparr>vec_x = 0, vec_y = 1, vec_z = 0\<rparr>}
   \<and> (paddle_y_distance s \<le> 0 \<longrightarrow>
        vec_y (g_paddle_movement (process_input inp s)) \<noteq> 1
        \<and> (\<not> held inp SDL_SCANCODE_S \<longrightarrow> vec_y (g_paddle_movement (process_input inp s)) = 0))
   \<and> (paddle_y_distance s \<ge> 6.3 \<longrightarrow>
        vec_y (g_paddle_movement (process_input inp s)) \<noteq> - 1
        \<and> (held inp SDL_SCANCODE_S \<longrightarrow> vec_y (g_paddle_movement (process_input inp s)) = 0))
   \<and> (paddle_right_y_distance s \<le> 0 \<longrightarrow>
        vec_y (g_right_paddle_movement (process_input inp s)) \<noteq> 1
        \<and> (\<not> held inp SDL_SCANCODE_DOWN \<longrightarrow>
             vec_y (g_right_paddle_movement (process_input inp s)) = 0))
   \<and> (paddle_right_y_distance s \<ge> 6.3 \<longrightarrow>
        vec_y (g_right_paddle_movement (process_input inp s)) \<noteq> - 1
        \<and> (held inp SDL_SCANCODE_DOWN \<longrightarrow>
             vec_y (g_right_paddle_movement (process_input inp s)) = 0))
   \<and> g_paddle_movement (process_input inp (s\<lparr>g_paddle_position := p, g_right_paddle_position := q\<rparr>))
        = g_paddle_movement (process_input inp s)
   \<and> g_right_paddle_movement (process_input inp (s\<lparr>g_paddle_position := p, g_right_paddle_position := q\<rparr>))
        = g_right_paddle_movement (process_input inp s)
   \<and> paddle_y_distance (process_input inp (update t s)) = 3.15 - vec_y (g_paddle_position (update t s))
   \<and> paddle_right_y_distance (process_input inp (update t s))
        = 3.15 - vec_y (g_right_paddle_position (update t s))"
proof (intro conjI)
  show "g_paddle_movement (process_input inp s) \<in>
      {\<lparr>vec_x = 0, vec_y = - 1, vec_z = 0\<rparr>, \<lparr>vec_x = 0, vec_y = 0, vec_z = 0\<rparr>,
       \<lparr>vec_x = 0, vec_y = 1, vec_z = 0\<rparr>}"
    by (simp add: process_input_paddle_movement)
  show "g_right_paddle_movement (process_input inp s) \<in>
      {\<lparr>vec_x = 0, vec_y = - 1, vec_z = 0\<rparr>, \<lparr>vec_x = 0, vec_y = 0, vec_z = 0\<rparr>,
       \<lparr>vec_x = 0, vec_y = 1, vec_z = 0\<rparr>}"
    by (simp add: process_input_right_paddle_movement)
  show "paddle_y_distance s \<le> 0 \<longrightarrow>
        vec_y (g_paddle_movement (process_input inp s)) \<noteq> 1
        \<and> (\<not> held inp SDL_SCANCODE_S \<longrightarrow> vec_y (g_paddle_movement (process_input inp s)) = 0)"
    by (simp add: process_input_paddle_movement)
  show "paddle_y_distance s \<ge> 6.3 \<longrightarrow>
        vec_y (g_paddle_movement (process_input inp s)) \<noteq> - 1
        \<and> (held inp SDL_SCANCODE_S \<longrightarrow> vec_y (g_paddle_movement (process_input inp s)) = 0)"
    by (simp add: process_input_paddle_movement)
  show "paddle_right_y_distance s \<le> 0 \<longrightarrow>
        vec_y (g_right_paddle_movement (process_input inp s)) \<noteq> 1
        \<and> (\<not> held inp SDL_SCANCODE_DOWN \<longrightarrow>
             vec_y (g_right_paddle_movement (process_input inp s)) = 0)"
    by (simp add: process_input_right_paddle_movement)
  show "paddle_right_y_distance s \<ge> 6.3 \<longrightarrow>
        vec_y (g_right_paddle_movement (process_input inp s)) \<noteq> - 1
        \<and> (held inp SDL_SCANCODE_DOWN \<longrightarrow>
             vec_y (g_right_paddle_movement (process_input inp s)) = 0)"
    by (simp add: process_input_right_paddle_movement)
  show "g_paddle_movement (process_input inp (s\<lparr>g_paddle_position := p, g_right_paddle_position := q\<rparr>))
        = g_paddle_movement (process_input inp s)"
    by (simp add: process_input_paddle_movement)
  show "g_right_paddle_movement (process_input inp (s\<lparr>g_paddle_position := p, g_right_paddle_position := q\<rparr>))
        = g_right_paddle_movement (process_input inp s)"
    by (simp add: process_input_right_paddle_movement)
  show "paddle_y_distance (process_input inp (update t s)) = 3.15 - vec_y (g_paddle_position (update t s))"
    by (simp add: process_input_kept update_distances)
  show "paddle_right_y_distance (process_input inp (update t s))
        = 3.15 - vec_y (g_right_paddle_position (update t s))"
    by (simp add: process_input_kept update_distances)
qed

theorem paddle_movement_clamped_witness:
  "paddle_y_distance scenario_near_top = 0.05
   \<and> vec_y (g_paddle_movement (process_input (holding_input SDL_SCANCODE_W 100) scenario_near_top)) = 1
   \<and> vec_y (g_paddle_position (frame (holding_input SDL_SCANCODE_W 100) scenario_near_top)) = 3.4
   \<and> paddle_y_distance (frame (holding_input SDL_SCANCODE_W 100) scenario_near_top) \<le> 0
   \<and> \<not> held (holding_input SDL_SCANCODE_W 200) SDL_SCANCODE_S
   \<and> vec_y (g_paddle_movement (process_input (holding_input SDL_SCANCODE_W 200)
        (frame (holding_input SDL_SCANCODE_W 100) scenario_near_top))) = 0"
proof -
  have d: "paddle_y_distance scenario_near_top = 0.05"
    by (simp add: scenario_near_top_def)
  show ?thesis
    using paddle_movement_clamped [of "holding_input SDL_SCANCODE_W 200"
        "frame (holding_input SDL_SCANCODE_W 100) scenario_near_top"]
    by (simp add: scenario_near_top_frame d)
qed

text \<open>
  C8. In tracking mode (\<open>right_paddle_swtich\<close> different from \<open>-1\<close>) a step moves the right
  paddle by \<open>g_paddle_speed * delta_time\<close> along y only: down when the ball's integrated
  y-position is below the paddle's, up when it is above. With the ball at \<open>y = 2\<close> and the
  paddle at \<open>y = 0\<close> the paddle's displacement is \<open>+1\<close> times that amount.
\<close>

theorem ai_tracks_ball:
  "right_paddle_swtich s \<noteq> - 1 \<longrightarrow>
     (vec_y (g_ball_position (before_collision t s)) < vec_y (g_right_paddle_position s) \<longrightarrow>
        g_right_paddle_position (update t s) =
          (g_right_paddle_position s)\<lparr>vec_y :=
             vec_y (g_right_paddle_position s) - g_paddle_speed s * delta_time t s\<rparr>)
     \<and> (vec_y (g_ball_position (before_collision t s)) > vec_y (g_right_paddle_position s) \<longrightarrow>
        g_right_paddle_position (update t s) =
          (g_right_paddle_position s)\<lparr>vec_y :=
             vec_y (g_right_paddle_position s) + g_paddle_speed s * delta_time t s\<rparr>)
     \<and> (vec_y (g_ball_position (before_collision t s)) = 2
          \<and> vec_y (g_right_paddle_position s) = 0 \<longrightarrow>
        vec_y (g_right_paddle_position (update t s)) = 1 * g_paddle_speed s * delta_time t s)"
  by (simp add: update_right_paddle_position phase_defs vec3_add_def vec3_scale_def)

theorem ai_tracks_ball_witness:
  "right_paddle_swtich scenario_ai \<noteq> - 1
   \<and> vec_y (g_ball_position (before_collision 100 scenario_ai)) = 2
   \<and> g_right_paddle_position scenario_ai = \<lparr>vec_x = 4, vec_y = 0, vec_z = 0\<rparr>
   \<and> g_right_paddle_position (update 100 scenario_ai) = \<lparr>vec_x = 4, vec_y = 0.3, vec_z = 0\<rparr>"
proof -
  have a: "right_paddle_swtich scenario_ai = 1"
    "g_right_paddle_position scenario_ai = \<lparr>vec_x = 4, vec_y = 0, vec_z = 0\<rparr>"
    "g_paddle_speed scenario_ai * delta_time 100 scenario_ai = 0.3"
    by (simp_all add: scenario_ai_def scenario_defs)
  have b: "vec_y (g_ball_position (before_collision 100 scenario_ai)) = 2"
    by (simp add: scenario_ai_def scenario_defs)
  show ?thesis
    using ai_tracks_ball [of scenario_ai 100]
    by (simp add: a b)
qed

text \<open>
  C10, as stated, at the upper bound. In tracking mode, with no arrow key held, the ball
  reaches the right paddle with its y-position above 3.5 while the paddle moves from
  \<open>y = 3.4\<close> to \<open>y = 3.43\<close>: the frame changes the ball's y-direction from \<open>+1\<close> to \<open>-1\<close>.
\<close>

theorem ai_hit_at_wall_counterexample:
  "right_paddle_swtich (process_input (idle_input 10) scenario_ai_wall) \<noteq> - 1
   \<and> \<not> held (idle_input 10) SDL_SCANCODE_UP \<and> \<not> held (idle_input 10) SDL_SCANCODE_DOWN
   \<and> collision_branch (before_collision (ticks_ms (idle_input 10))
        (process_input (idle_input 10) scenario_ai_wall)) = RIGHT_PADDLE
   \<and> vec_y (g_right_paddle_position scenario_ai_wall) = 3.4
   \<and> vec_y (g_right_paddle_position (frame (idle_input 10) scenario_ai_wall)) = 3.43
   \<and> vec_y (g_ball_movement scenario_ai_wall) = 1
   \<and> vec_y (g_ball_movement (frame (idle_input 10) scenario_ai_wall)) = - 1"
proof -
  have t: "ticks_ms (idle_input 10) = 10"
    "\<not> held (idle_input 10) SDL_SCANCODE_UP" "\<not> held (idle_input 10) SDL_SCANCODE_DOWN"
    by (simp_all add: idle_input_def held_def no_keys_def)
  show ?thesis
    by (simp add: t scenario_ai_wall_idle scenario_ai_wall_fields)
qed

text \<open>
  C10, amended. In tracking mode a right-paddle collision takes the ball's new
  y-direction from \<open>g_right_paddle_movement\<close>, which \<open>process_input\<close> computes from the UP
  and DOWN keys and the stored distance, not from the displacement of the tracking
  paddle. With neither key held the collision branch leaves the ball's y-direction as it
  was, even while the tracking paddle moves; the frame then ends with that y-direction
  when the ball's y-position is strictly between \<open>-3.5\<close> and 3.5, and with its negation
  when the y-position is at least 3.5 or at most \<open>-3.5\<close>. In the first scenario below
  the tracking paddle moves down in both frames; the ball keeps its y-direction when no
  key is held and is sent up when UP is held.
\<close>

theorem ai_collision_uses_key_movement:
  "right_paddle_swtich (process_input inp s) \<noteq> - 1
   \<and> collision_branch (before_collision (ticks_ms inp) (process_input inp s)) = RIGHT_PADDLE
   \<longrightarrow>
     vec_y (g_right_paddle_movement (process_input inp s)) =
       (if held inp SDL_SCANCODE_DOWN then (if paddle_right_y_distance s \<ge> 6.3 then 0 else - 1)
        else if held inp SDL_SCANCODE_UP then (if paddle_right_y_distance s \<le> 0 then 0 else 1)
        else 0)
     \<and> vec_y (g_ball_movement (resolve_collision
            (before_collision (ticks_ms inp) (process_input inp s)))) =
         (if vec_y (g_right_paddle_movement (process_input inp s)) = 0
          then vec_y (g_ball_movement s)
          else vec_y (g_right_paddle_movement (process_input inp s)))
     \<and> vec_y (g_ball_movement (frame inp s)) =
         (if vec_y (g_ball_position (frame inp s)) \<ge> 3.5
             \<or> vec_y (g_ball_position (frame inp s)) \<le> - 3.5
          then - (if vec_y (g_right_paddle_movement (process_input inp s)) = 0
                  then vec_y (g_ball_movement s)
                  else vec_y (g_right_paddle_movement (process_input inp s)))
          else (if vec_y (g_right_paddle_movement (process_input inp s)) = 0
                then vec_y (g_ball_movement s)
                else vec_y (g_right_paddle_movement (process_input inp s))))
     \<and> (\<not> held inp SDL_SCANCODE_UP \<and> \<not> held inp SDL_SCANCODE_DOWN \<longrightarrow>
          vec_y (g_ball_movement (resolve_collision
            (before_collision (ticks_ms inp) (process_input inp s)))) = vec_y (g_ball_movement s)
          \<and> vec_y (g_ball_movement (frame inp s)) =
              (if vec_y (g_ball_position (frame inp s)) \<ge> 3.5
                  \<or> vec_y (g_ball_position (frame inp s)) \<le> - 3.5
               then - vec_y (g_ball_movement s) else vec_y (g_ball_movement s)))"
proof (intro impI)
  assume h: "right_paddle_swtich (process_input inp s) \<noteq> - 1
   \<and> collision_branch (before_collision (ticks_ms inp) (process_input inp s)) = RIGHT_PADDLE"
  then have b: "collision_branch (before_collision (ticks_ms inp) (process_input inp s)) = RIGHT_PADDLE"
    by simp
  have m: "vec_y (g_right_paddle_movement (process_input inp s)) =
       (if held inp SDL_SCANCODE_DOWN then (if paddle_right_y_distance s \<ge> 6.3 then 0 else - 1)
        else if held inp SDL_SCANCODE_UP then (if paddle_right_y_distance s \<le> 0 then 0 else 1)
        else 0)"
    by (simp add: process_input_right_paddle_movement)
  have r: "vec_y (g_ball_movement (resolve_collision
            (before_collision (ticks_ms inp) (process_input inp s)))) =
         (if vec_y (g_right_paddle_movement (process_input inp s)) = 0
          then vec_y (g_ball_movement s)
          else vec_y (g_right_paddle_movement (process_input inp s)))"
    using resolve_collision_right [OF b]
    by (simp add: process_input_kept process_input_right_paddle_movement)
  have f: "vec_y (g_ball_movement (frame inp s)) =
         (if vec_y (g_ball_position (frame inp s)) \<ge> 3.5
             \<or> vec_y (g_ball_position (frame inp s)) \<le> - 3.5
          then - (if vec_y (g_right_paddle_movement (process_input inp s)) = 0
                  then vec_y (g_ball_movement s)
                  else vec_y (g_right_paddle_movement (process_input inp s)))
          else (if vec_y (g_right_paddle_movement (process_input inp s)) = 0
                then vec_y (g_ball_movement s)
                else vec_y (g_right_paddle_movement (process_input inp s))))"
    unfolding frame_def update_ball_movement_y update_ball_position r by simp
  have z: "vec_y (g_right_paddle_movement (process_input inp s)) = 0"
    if "\<not> held inp SDL_SCANCODE_UP \<and> \<not> held inp SDL_SCANCODE_DOWN"
    using m that by simp
  have k: "vec_y (g_ball_movement (resolve_collision
            (before_collision (ticks_ms inp) (process_input inp s)))) = vec_y (g_ball_movement s)"
    if "\<not> held inp SDL_SCANCODE_UP \<and> \<not> held inp SDL_SCANCODE_DOWN"
    using r z [OF that] by simp
  have g: "vec_y (g_ball_movement (frame inp s)) =
              (if vec_y (g_ball_position (frame inp s)) \<ge> 3.5
                  \<or> vec_y (g_ball_position (frame inp s)) \<le> - 3.5
               then - vec_y (g_ball_movement s) else vec_y (g_ball_movement s))"
    if "\<not> held inp SDL_SCANCODE_UP \<and> \<not> held inp SDL_SCANCODE_DOWN"
    using f z [OF that] by simp
  show "vec_y (g_right_paddle_movement (process_input inp s)) =
       (if held inp SDL_SCANCODE_DOWN then (if paddle_right_y_distance s \<ge> 6.3 then 0 else - 1)
        else if held inp SDL_SCANCODE_UP then (if paddle_right_y_distance s \<le> 0 then 0 else 1)
        else 0)
     \<and> vec_y (g_ball_movement (resolve_collision
            (before_collision (ticks_ms inp) (process_input inp s)))) =
         (if vec_y (g_right_paddle_movement (process_input inp s)) = 0
          then vec_y (g_ball_movement s)
          else vec_y (g_right_paddle_movement (process_input inp s)))
     \<and> vec_y (g_ball_movement (frame inp s)) =
         (if vec_y (g_ball_position (frame inp s)) \<ge> 3.5
             \<or> vec_y (g_ball_position (frame inp s)) \<le> - 3.5
          then - (if vec_y (g_right_paddle_movement (process_input inp s)) = 0
                  then vec_y (g_ball_movement s)
                  else vec_y (g_right_paddle_movement (process_input inp s)))
          else (if vec_y (g_right_paddle_movement (process_input inp s)) = 0
                then vec_y (g_ball_movement s)
                else vec_y (g_right_paddle_movement (process_input inp s))))
     \<and> (\<not> held inp SDL_SCANCODE_UP \<and> \<not> held inp SDL_SCANCODE_DOWN \<longrightarrow>
          vec_y (g_ball_movement (resolve_collision
            (before_collision (ticks_ms inp) (process_input inp s)))) = vec_y (g_ball_movement s)
          \<and> vec_y (g_ball_movement (frame inp s)) =
              (if vec_y (g_ball_position (frame inp s)) \<ge> 3.5
                  \<or> vec_y (g_ball_position (frame inp s)) \<le> - 3.5
               then - vec_y (g_ball_movement s) else vec_y (g_ball_movement s)))"
    using m r f k g by blast
qed

theorem ai_collision_uses_key_movement_witness:
  "right_paddle_swtich (process_input (idle_input 10) scenario_ai_hit) \<noteq> - 1
   \<and> collision_branch (before_collision (ticks_ms (idle_input 10))
        (process_input (idle_input 10) scenario_ai_hit)) = RIGHT_PADDLE
   \<and> \<not> held (idle_input 10) SDL_SCANCODE_UP \<and> \<not> held (idle_input 10) SDL_SCANCODE_DOWN
   \<and> vec_y (g_right_paddle_position scenario_ai_hit) = 0
   \<and> vec_y (g_right_paddle_position (frame (idle_input 10) scenario_ai_hit)) = - 0.03
   \<and> vec_y (g_ball_movement scenario_ai_hit) = - 1
   \<and> vec_y (g_ball_movement (frame (idle_input 10) scenario_ai_hit)) = - 1
   \<and> right_paddle_swtich (process_input (holding_input SDL_SCANCODE_UP 10) scenario_ai_hit) \<noteq> - 1
   \<and> collision_branch (before_collision (ticks_ms (holding_input SDL_SCANCODE_UP 10))
        (process_input (holding_input SDL_SCANCODE_UP 10) scenario_ai_hit)) = RIGHT_PADDLE
   \<and> held (holding_input SDL_SCANCODE_UP 10) SDL_SCANCODE_UP
   \<and> vec_y (g_right_paddle_position (frame (holding_input SDL_SCANCODE_UP 10) scenario_ai_hit)) = - 0.03
   \<and> vec_y (g_ball_movement (frame (holding_input SDL_SCANCODE_UP 10) scenario_ai_hit)) = 1
   \<and> right_paddle_swtich (process_input (idle_input 10) scenario_ai_wall) \<noteq> - 1
   \<and> collision_branch (before_collision (ticks_ms (idle_input 10))
        (process_input (idle_input 10) scenario_ai_wall)) = RIGHT_PADDLE
   \<and> vec_y (g_ball_position (frame (idle_input 10) scenario_ai_wall)) \<ge> 3.5
   \<and> vec_y (g_ball_movement scenario_ai_wall) = 1
   \<and> vec_y (g_ball_movement (frame (idle_input 10) scenario_ai_wall)) = - 1"
proof -
  have t: "ticks_ms (idle_input 10) = 10"
    "\<not> held (idle_input 10) SDL_SCANCODE_UP" "\<not> held (idle_input 10) SDL_SCANCODE_DOWN"
    by (simp_all add: idle_input_def held_def no_keys_def)
  have u: "ticks_ms (holding_input SDL_SCANCODE_UP 10) = 10"
    "held (holding_input SDL_SCANCODE_UP 10) SDL_SCANCODE_UP"
    "\<not> held (holding_input SDL_SCANCODE_UP 10) SDL_SCANCODE_DOWN"
    by (simp_all add: holding_input_def held_def holding_def)
  have one: "vec_y (g_ball_movement (frame (idle_input 10) scenario_ai_hit)) = - 1"
    using ai_collision_uses_key_movement [of "idle_input 10" scenario_ai_hit]
    by (simp add: t scenario_ai_hit_idle scenario_ai_hit_fields)
  have two: "vec_y (g_ball_movement (frame (holding_input SDL_SCANCODE_UP 10) scenario_ai_hit)) = 1"
    using ai_collision_uses_key_movement [of "holding_input SDL_SCANCODE_UP 10" scenario_ai_hit]
    by (simp add: u scenario_ai_hit_up scenario_ai_hit_fields)
  have three: "vec_y (g_ball_movement (frame (idle_input 10) scenario_ai_wall)) = - 1"
    using ai_collision_uses_key_movement [of "idle_input 10" scenario_ai_wall]
    by (simp add: t scenario_ai_wall_idle(1-4) scenario_ai_wall_fields)
  show ?thesis
    using one two three
    by (simp add: t u scenario_ai_hit_idle scenario_ai_hit_up scenario_ai_hit_fields
        scenario_ai_wall_idle(1-4) scenario_ai_wall_fields)
qed

section \<open>What a frame depends on\<close>

text \<open>
  C9, as stated, at the initial state. Two inputs with the same tick count, the same
  held keys, no quit request and no toggle event, one of them holding a key-down event
  of the P key: the frame results differ in the ball's x-direction and x-position.
\<close>

theorem unobserved_input_counterexample:
  "inputs_agree quit_or_toggle (idle_input 100) (key_down_input SDLK_p 100)
   \<and> vec_x (g_ball_movement (frame (idle_input 100) initial_game)) = 0
   \<and> vec_x (g_ball_movement (frame (key_down_input SDLK_p 100) initial_game)) = - 1
   \<and> vec_x (g_ball_position (frame (idle_input 100) initial_game)) = 0
   \<and> vec_x (g_ball_position (frame (key_down_input SDLK_p 100) initial_game)) = - 0.3
   \<and> frame (idle_input 100) initial_game \<noteq> frame (key_down_input SDLK_p 100) initial_game"
proof -
  have a: "inputs_agree quit_or_toggle (idle_input 100) (key_down_input SDLK_p 100)"
    by (simp add: inputs_agree_def held_def idle_input_def key_down_input_def)
  have m: "g_ball_movement (process_input (idle_input 100) initial_game)
             = \<lparr>vec_x = 0, vec_y = 0, vec_z = 0\<rparr>"
    "g_ball_movement (process_input (key_down_input SDLK_p 100) initial_game)
             = \<lparr>vec_x = - 1, vec_y = 0, vec_z = 0\<rparr>"
    by (simp_all add: process_input_from_events idle_input_def key_down_input_def initial_game_def)
  have i: "g_ball_position initial_game = \<lparr>vec_x = 0, vec_y = 0, vec_z = 0\<rparr>"
    "g_ball_speed initial_game = 3" "g_previous_ticks initial_game = 0"
    by (simp_all add: initial_game_def)
  have t: "ticks_ms (idle_input 100) = 100" "ticks_ms (key_down_input SDLK_p 100) = 100"
    by (simp_all add: idle_input_def key_down_input_def)
  have p: "vec_x (g_ball_position (frame (idle_input 100) initial_game)) = 0"
    "vec_x (g_ball_position (frame (key_down_input SDLK_p 100) initial_game)) = - 0.3"
    by (simp_all add: frame_def update_ball_position before_collision_ball_position m i t
        process_input_kept delta_time_def seconds_def MILLISECONDS_IN_SECOND_def
        vec3_add_def vec3_scale_def)
  have x: "vec_x (g_ball_position (before_collision 100 (process_input (idle_input 100) initial_game))) = 0"
    "vec_x (g_ball_position (before_collision 100 (process_input (key_down_input SDLK_p 100) initial_game))) = - 0.3"
    using p by (simp_all add: frame_def update_ball_position t)
  have pp: "g_paddle_position (before_collision 100 (process_input (idle_input 100) initial_game))
       = \<lparr>vec_x = - 4, vec_y = 0, vec_z = 0\<rparr>"
    "g_paddle_position (before_collision 100 (process_input (key_down_input SDLK_p 100) initial_game))
       = \<lparr>vec_x = - 4, vec_y = 0, vec_z = 0\<rparr>"
    by (simp_all add: before_collision_paddle_position process_input_kept
        process_input_paddle_movement held_def idle_input_def key_down_input_def no_keys_def
        initial_game_def vec3_add_def vec3_scale_def)
  have rp: "vec_x (g_right_paddle_position (before_collision 100 (process_input (idle_input 100) initial_game))) = 4"
    "vec_x (g_right_paddle_position (before_collision 100 (process_input (key_down_input SDLK_p 100) initial_game))) = 4"
    by (simp_all add: phase_defs process_input_kept process_input_right_paddle_movement
        initial_game_def vec3_add_def vec3_scale_def)
  have b: "collision_branch (before_collision 100 (process_input (idle_input 100) initial_game)) = NO_PADDLE"
    "collision_branch (before_collision 100 (process_input (key_down_input SDLK_p 100) initial_game)) = NO_PADDLE"
    by (simp_all add: collision_branch_def before_collision_distances x pp rp)
  have v: "vec_x (g_ball_movement (frame (idle_input 100) initial_game)) = 0"
    "vec_x (g_ball_movement (frame (key_down_input SDLK_p 100) initial_game)) = - 1"
    using b by (simp_all add: frame_def t update_ball_movement_x resolve_collision_none m)
  show ?thesis using a p v by auto
qed

text \<open>
  C9, amended. The state after a frame depends only on the held state of the four
  movement keys, the quit requests and the key-down events of the keys T (mode toggle)
  and P (which sets the ball's x-direction to \<open>-1\<close>), the tick count and the prior state:
  two inputs that agree on these give the same state, whatever other keys and events
  they hold.
\<close>

theorem frame_observes_handled_input:
  "inputs_agree handled_event i1 i2 \<Longrightarrow> frame i1 s = frame i2 s"
proof -
  assume a: "inputs_agree handled_event i1 i2"
  then have "ticks_ms i1 = ticks_ms i2" by (simp add: inputs_agree_def)
  then show ?thesis using process_input_agree [OF a] by (simp add: frame_def)
qed

theorem frame_observes_handled_input_witness:
  "inputs_agree handled_event noisy_input (key_down_input SDLK_p 100)
   \<and> events noisy_input \<noteq> events (key_down_input SDLK_p 100)
   \<and> key_state noisy_input (SDL_SCANCODE_other 7) \<noteq> key_state (key_down_input SDLK_p 100) (SDL_SCANCODE_other 7)
   \<and> frame noisy_input initial_game = frame (key_down_input SDLK_p 100) initial_game"
proof -
  have a: "inputs_agree handled_event noisy_input (key_down_input SDLK_p 100)"
    by (simp add: inputs_agree_def held_def noisy_input_def key_down_input_def holding_def
        no_keys_def)
  have b: "events noisy_input \<noteq> events (key_down_input SDLK_p 100)"
    "key_state noisy_input (SDL_SCANCODE_other 7) \<noteq> key_state (key_down_input SDLK_p 100) (SDL_SCANCODE_other 7)"
    by (simp_all add: noisy_input_def key_down_input_def holding_def no_keys_def)
  show ?thesis
    using frame_observes_handled_input [OF a, of initial_game] a b by simp
qed

section \<open>The ball speed\<close>

text \<open>
  C1. For every finite sequence of frame inputs run from the initial state, the ball
  speed is \<open>3 * 1.015 ^ N\<close>, where \<open>N\<close> counts the frames in which a paddle-collision
  branch was entered, and no further frame decreases it. In the two-frame execution
  \<open>serve_and_return\<close> the ball is hit once and ends with speed 3.045.
\<close>

theorem ball_speed_growth:
  "g_ball_speed (main_loop inps initial_game) = 3 * 1.015 ^ collision_count inps initial_game
   \<and> g_ball_speed (main_loop inps initial_game)
        \<le> g_ball_speed (frame inp (main_loop inps initial_game))
   \<and> g_ball_speed (main_loop inps initial_game)
        \<le> g_ball_speed (main_loop (inps @ [inp]) initial_game)"
proof -
  have e: "g_ball_speed (main_loop inps initial_game) = 3 * 1.015 ^ collision_count inps initial_game"
    by (simp add: main_loop_ball_speed initial_game_def)
  then have "0 \<le> g_ball_speed (main_loop inps initial_game)" by simp
  then have m: "g_ball_speed (main_loop inps initial_game)
        \<le> g_ball_speed (frame inp (main_loop inps initial_game))"
    by (rule frame_ball_speed_mono)
  then have "g_ball_speed (main_loop inps initial_game)
        \<le> g_ball_speed (main_loop (inps @ [inp]) initial_game)"
    by (simp add: main_loop_snoc)
  with e m show ?thesis by simp
qed

theorem ball_speed_growth_witness:
  "collision_count serve_and_return initial_game = 1
   \<and> g_ball_speed (main_loop serve_and_return initial_game) = 3.045"
  using ball_speed_growth [of serve_and_return]
  by (simp add: serve_and_return_count)

end
